theory Spec2Isabelle
  imports Main "HOL-Library.Sublist" "HOL-Library.AList"
begin

section \<open>Errors and certificates\<close>

text \<open>
  Go returns errors as values and the code branches on their dynamic type
  (\<^verbatim>\<open>err.(*trustmanager.ErrCertExists)\<close>). The error types the two packages name are
  constructors; every other error value is \<open>ErrOther\<close> with its message. A nil pointer
  dereference is \<open>Panic\<close>.
\<close>

datatype error =
    ErrValidationFail string
  | ErrRootRotationFail string
  | ErrNoCertificatesFound
  | ErrCertExists
  | ErrNoKey
  | ErrKeyExists
  | ErrNotFound
  | ErrOther string
  | Panic string

text \<open>The constants of \<^verbatim>\<open>x509.SignatureAlgorithm\<close>.\<close>

datatype SignatureAlgorithm =
    UnknownSignatureAlgorithm
  | MD2WithRSA | MD5WithRSA | SHA1WithRSA | SHA256WithRSA | SHA384WithRSA | SHA512WithRSA
  | DSAWithSHA1 | DSAWithSHA256
  | ECDSAWithSHA1 | ECDSAWithSHA256 | ECDSAWithSHA384 | ECDSAWithSHA512

text \<open>
  The fields of \<^verbatim>\<open>x509.Certificate\<close> that the code reads. \<open>Raw\<close> is the encoded
  certificate, \<open>CommonName\<close> is \<^verbatim>\<open>Subject.CommonName\<close>, and times are seconds on one clock.
\<close>

record Certificate =
  Raw :: string
  CommonName :: string
  NotAfter :: int
  SigAlg :: SignatureAlgorithm
  IsCA :: bool

text \<open>
  \<^verbatim>\<open>data.SignedRoot\<close>: \<open>Roles\<close> gives the key IDs of a role
  (\<^verbatim>\<open>Signed.Roles[role].KeyIDs\<close>), \<open>Keys\<close> the public bytes of a key
  (\<^verbatim>\<open>Signed.Keys[keyID].Public()\<close>), a PEM bundle.
\<close>

record SignedRoot =
  Roles :: "string \<Rightarrow> string list option"
  Keys :: "string \<Rightarrow> string option"

text \<open>
  \<^verbatim>\<open>notary.TrustPinConfig\<close>. \<open>Certs\<close> is only looked up, so it is a map. \<open>CA\<close> is ranged
  over: it is an association list, and its order is the order in which this run of
  \<^verbatim>\<open>range\<close> visits the entries (Go leaves that order unspecified, so a statement about
  the code holds for every order of the list).
\<close>

record TrustPinConfig =
  Certs :: "string \<Rightarrow> string option"
  CA :: "(string \<times> string) list"
  TOFU :: bool

text \<open>
  The functions of other packages that \<^verbatim>\<open>certs.go\<close> calls and that are not part of it
  are parameters: the \<^verbatim>\<open>trustmanager\<close> helpers, \<^verbatim>\<open>data.RootFromSigned\<close>,
  \<^verbatim>\<open>signed.VerifyRoot\<close>, \<^verbatim>\<open>cert.Verify\<close> (with the root pool and the intermediate pool
  as lists) and the clock. \<open>'r\<close> is \<^verbatim>\<open>*data.Signed\<close>, \<open>'k\<close> the key set that
  \<^verbatim>\<open>CertsToKeys\<close> builds. A call that returns only an error gives \<open>None\<close> for nil.
\<close>

record ('r, 'k) trustmanager =
  FingerprintCert :: "Certificate \<Rightarrow> error + string"
  LoadCertBundleFromPEM :: "string \<Rightarrow> error + Certificate list"
  LoadCertFromFile :: "string \<Rightarrow> error + Certificate"
  ValidateCertificate :: "Certificate \<Rightarrow> error option"
  CertsToKeys :: "Certificate list \<Rightarrow> 'k"
  RootFromSigned :: "'r \<Rightarrow> error + SignedRoot"
  VerifyRoot :: "'r \<Rightarrow> nat \<Rightarrow> 'k \<Rightarrow> error option"
  Verify :: "Certificate \<Rightarrow> Certificate list \<Rightarrow> Certificate list \<Rightarrow> error option"
  Now :: int

text \<open>
  \<^verbatim>\<open>trustmanager.X509Store\<close> is an interface: a record of its three methods used here,
  each passing the state \<open>'w\<close> of the store. \<^verbatim>\<open>GetCertificatesByCN\<close> returns the pair
  Go returns, since the code keeps the list when the error is
  \<^verbatim>\<open>ErrNoCertificatesFound\<close>.
\<close>

record 'w X509Store =
  GetCertificatesByCN :: "string \<Rightarrow> 'w \<Rightarrow> (Certificate list \<times> error option) \<times> 'w"
  AddCert :: "Certificate \<Rightarrow> 'w \<Rightarrow> error option \<times> 'w"
  RemoveCert :: "Certificate \<Rightarrow> 'w \<Rightarrow> error option \<times> 'w"

text \<open>
  Modelled from the spec: \<^verbatim>\<open>trustmanager.GetLeafCerts\<close> and
  \<^verbatim>\<open>trustmanager.GetIntermediateCerts\<close> are not in the sources; a leaf certificate is a
  non-CA certificate, an intermediate one is marked as a CA.
\<close>

definition GetLeafCerts :: "Certificate list \<Rightarrow> Certificate list" where
  "GetLeafCerts certs = filter (\<lambda>cert. \<not> IsCA cert) certs"

definition GetIntermediateCerts :: "Certificate list \<Rightarrow> Certificate list" where
  "GetIntermediateCerts certs = filter IsCA certs"

text \<open>
  Modelled from the spec: \<^verbatim>\<open>utils.ContainsKeyPrefix\<close> is not in the sources; it holds
  when some key of the map is a prefix of the GUN.
\<close>

definition ContainsKeyPrefix :: "(string \<times> string) list \<Rightarrow> string \<Rightarrow> bool" where
  "ContainsKeyPrefix m gun = list_ex (\<lambda>(k, _). prefix k gun) m"

section \<open>certs.go\<close>

subsection \<open>parseAllCerts\<close>

text \<open>
  A Go map that is ranged over is an association list with one entry per key;
  \<^verbatim>\<open>m[k] = v\<close> is \<open>AList.update\<close>. The loop over the root role's key IDs, with each
  \<^verbatim>\<open>continue\<close> a recursive call on the unchanged maps.
\<close>

fun parseKeyIDs ::
  "('r, 'k) trustmanager \<Rightarrow> SignedRoot \<Rightarrow> string list \<Rightarrow>
   (string \<times> Certificate) list \<Rightarrow> (string \<times> Certificate list) list \<Rightarrow>
   (string \<times> Certificate) list \<times> (string \<times> Certificate list) list" where
  "parseKeyIDs tm signedRoot [] leafCerts intCerts = (leafCerts, intCerts)"
| "parseKeyIDs tm signedRoot (keyID # rest) leafCerts intCerts =
     (case Keys signedRoot keyID of
        None \<Rightarrow> parseKeyIDs tm signedRoot rest leafCerts intCerts
      | Some key \<Rightarrow>
          (case LoadCertBundleFromPEM tm key of
             Inl err \<Rightarrow> parseKeyIDs tm signedRoot rest leafCerts intCerts
           | Inr decodedCerts \<Rightarrow>
               (case GetLeafCerts decodedCerts of
                  [leafCert] \<Rightarrow>
                    (case FingerprintCert tm leafCert of
                       Inl err \<Rightarrow> parseKeyIDs tm signedRoot rest leafCerts intCerts
                     | Inr leafID \<Rightarrow>
                         parseKeyIDs tm signedRoot rest
                           (AList.update leafID leafCert leafCerts)
                           (AList.update leafID (GetIntermediateCerts decodedCerts) intCerts))
                | _ \<Rightarrow> parseKeyIDs tm signedRoot rest leafCerts intCerts)))"

definition parseAllCerts ::
  "('r, 'k) trustmanager \<Rightarrow> SignedRoot \<Rightarrow>
   (string \<times> Certificate) list \<times> (string \<times> Certificate list) list" where
  "parseAllCerts tm signedRoot =
     (case Roles signedRoot ''root'' of
        None \<Rightarrow> ([], [])
      | Some keyIDs \<Rightarrow> parseKeyIDs tm signedRoot keyIDs [] [])"

subsection \<open>validRootLeafCerts\<close>

definition usesSHA1 :: "Certificate \<Rightarrow> bool" where
  "usesSHA1 cert \<longleftrightarrow>
     SigAlg cert = SHA1WithRSA \<or> SigAlg cert = DSAWithSHA1 \<or> SigAlg cert = ECDSAWithSHA1"

text \<open>
  The loop over the leaf certificates: three checks, each skipping the certificate.
  \<^verbatim>\<open>time.Now().After(cert.NotAfter)\<close> is \<open>NotAfter cert < Now tm\<close>.
\<close>

fun validLeafLoop :: "('r, 'k) trustmanager \<Rightarrow> string \<Rightarrow> Certificate list \<Rightarrow> Certificate list" where
  "validLeafLoop tm gun [] = []"
| "validLeafLoop tm gun (cert # rest) =
     (if CommonName cert \<noteq> gun then validLeafLoop tm gun rest
      else if NotAfter cert < Now tm then validLeafLoop tm gun rest
      else if usesSHA1 cert then validLeafLoop tm gun rest
      else cert # validLeafLoop tm gun rest)"

definition validRootLeafCerts ::
  "('r, 'k) trustmanager \<Rightarrow> SignedRoot \<Rightarrow> string \<Rightarrow> error + Certificate list" where
  "validRootLeafCerts tm root gun =
     (let allLeafCerts = fst (parseAllCerts tm root);
          validLeafCerts = validLeafLoop tm gun (map snd allLeafCerts)
      in if length validLeafCerts < 1
         then Inl (ErrOther ''no valid leaf certificates found in any of the root keys'')
         else Inr validLeafCerts)"

subsection \<open>certsToRemove\<close>

text \<open>\<^verbatim>\<open>newCertMap\<close> is only tested for membership: the set of its keys.\<close>

fun newCertIDs :: "('r, 'k) trustmanager \<Rightarrow> Certificate list \<Rightarrow> string set" where
  "newCertIDs tm [] = {}"
| "newCertIDs tm (cert # rest) =
     (case FingerprintCert tm cert of
        Inl err \<Rightarrow> newCertIDs tm rest
      | Inr certID \<Rightarrow> insert certID (newCertIDs tm rest))"

fun removeLoop ::
  "('r, 'k) trustmanager \<Rightarrow> string set \<Rightarrow> Certificate list \<Rightarrow>
   (string \<times> Certificate) list \<Rightarrow> (string \<times> Certificate) list" where
  "removeLoop tm newCertMap [] certsToRemove = certsToRemove"
| "removeLoop tm newCertMap (cert # rest) certsToRemove =
     (case FingerprintCert tm cert of
        Inl err \<Rightarrow> removeLoop tm newCertMap rest certsToRemove
      | Inr certID \<Rightarrow>
          if certID \<notin> newCertMap
          then removeLoop tm newCertMap rest (AList.update certID cert certsToRemove)
          else removeLoop tm newCertMap rest certsToRemove)"

definition certsToRemove ::
  "('r, 'k) trustmanager \<Rightarrow> Certificate list \<Rightarrow> Certificate list \<Rightarrow>
   (string \<times> Certificate) list" where
  "certsToRemove tm oldCerts newCerts =
     (if length newCerts = 0 then []
      else removeLoop tm (newCertIDs tm newCerts) oldCerts [])"

subsection \<open>ValidateRoot\<close>

text \<open>The search for the pinned certificate: the first candidate whose fingerprint is the pin.\<close>

fun findPinnedCert ::
  "('r, 'k) trustmanager \<Rightarrow> string \<Rightarrow> Certificate list \<Rightarrow> Certificate option" where
  "findPinnedCert tm pinnedID [] = None"
| "findPinnedCert tm pinnedID (cert # rest) =
     (case FingerprintCert tm cert of
        Inl err \<Rightarrow> findPinnedCert tm pinnedID rest
      | Inr certID \<Rightarrow>
          if certID = pinnedID then Some cert else findPinnedCert tm pinnedID rest)"

text \<open>
  The inner loop of the CA pin: the candidates with a chain to \<open>caCert\<close>, the
  intermediates being those that the root bundles under the candidate's fingerprint.
\<close>

fun validCertsForCA ::
  "('r, 'k) trustmanager \<Rightarrow> SignedRoot \<Rightarrow> Certificate \<Rightarrow> Certificate list \<Rightarrow> Certificate list" where
  "validCertsForCA tm signedRoot caCert [] = []"
| "validCertsForCA tm signedRoot caCert (cert # rest) =
     (case FingerprintCert tm cert of
        Inl err \<Rightarrow> validCertsForCA tm signedRoot caCert rest
      | Inr certID \<Rightarrow>
          (let intermediateCerts = snd (parseAllCerts tm signedRoot);
               caIntPool = (case map_of intermediateCerts certID of
                              Some intermediateCertList \<Rightarrow> intermediateCertList
                            | None \<Rightarrow> [])
           in if Verify tm cert [caCert] caIntPool = None
              then cert # validCertsForCA tm signedRoot caCert rest
              else validCertsForCA tm signedRoot caCert rest))"

text \<open>
  The loop over \<^verbatim>\<open>trustPinning.CA\<close>: every entry whose key is a prefix of the GUN loads
  its CA and replaces \<open>allValidCerts\<close> by the candidates signed by it. The second
  \<^verbatim>\<open>if err != nil\<close> of the body (line 156) tests the error of \<^verbatim>\<open>ValidateCertificate\<close>
  again, which is nil there: it has no branch in the model.
\<close>

fun pinCALoop ::
  "('r, 'k) trustmanager \<Rightarrow> SignedRoot \<Rightarrow> string \<Rightarrow> (string \<times> string) list \<Rightarrow>
   Certificate list \<Rightarrow> error + Certificate list" where
  "pinCALoop tm signedRoot gun [] allValidCerts = Inr allValidCerts"
| "pinCALoop tm signedRoot gun ((caGunPrefix, caFilepath) # rest) allValidCerts =
     (if prefix caGunPrefix gun then
        (case LoadCertFromFile tm caFilepath of
           Inl err \<Rightarrow> Inl (ErrValidationFail ''failed to load specified CA trust pin'')
         | Inr caCert \<Rightarrow>
             (case ValidateCertificate tm caCert of
                Some err \<Rightarrow> Inl (ErrValidationFail ''failed to validate specified CA trust pin'')
              | None \<Rightarrow>
                  pinCALoop tm signedRoot gun rest
                    (validCertsForCA tm signedRoot caCert allValidCerts)))
      else pinCALoop tm signedRoot gun rest allValidCerts)"

text \<open>
  The branch taken when the store holds no certificate for the GUN (lines 114 to 189):
  the pinned certificate, else the pinned CAs, else TOFU.
\<close>

definition bootstrapTrust ::
  "('r, 'k) trustmanager \<Rightarrow> SignedRoot \<Rightarrow> string \<Rightarrow> TrustPinConfig \<Rightarrow>
   Certificate list \<Rightarrow> error + Certificate list" where
  "bootstrapTrust tm signedRoot gun trustPinning allValidCerts =
     (case Certs trustPinning gun of
        Some pinnedID \<Rightarrow>
          (case findPinnedCert tm pinnedID allValidCerts of
             None \<Rightarrow> Inl (ErrValidationFail ''failed to find matching certificate ID '')
           | Some cert \<Rightarrow> Inr [cert])
      | None \<Rightarrow>
          if ContainsKeyPrefix (CA trustPinning) gun then
            (if length (CA trustPinning) > 0
             then pinCALoop tm signedRoot gun (CA trustPinning) allValidCerts
             else Inr allValidCerts)
          else if \<not> TOFU trustPinning then
            Inl (ErrValidationFail ''could not bootstrap trust without trust_pinning configuration'')
          else Inr allValidCerts)"

text \<open>
  Lines 80 to 199: everything before the rotation. The result is the error returned, or
  the previously trusted certificates with the accepted ones.
\<close>

definition validateTrust ::
  "('r, 'k) trustmanager \<Rightarrow> 'w X509Store \<Rightarrow> 'r \<Rightarrow> string \<Rightarrow> TrustPinConfig \<Rightarrow> 'w \<Rightarrow>
   (error + Certificate list \<times> Certificate list) \<times> 'w" where
  "validateTrust tm certStore root gun trustPinning w =
     (case RootFromSigned tm root of
        Inl err \<Rightarrow> (Inl err, w)
      | Inr signedRoot \<Rightarrow>
     (case validRootLeafCerts tm signedRoot gun of
        Inl err \<Rightarrow> (Inl (ErrValidationFail ''unable to retrieve valid leaf certificates''), w)
      | Inr allValidCerts \<Rightarrow>
     (case GetCertificatesByCN certStore gun w of
        ((certsForCN, err), w') \<Rightarrow>
     if err \<noteq> None \<and> err \<noteq> Some ErrNoCertificatesFound then
       (Inl (ErrValidationFail ''unable to retrieve trusted certificates''), w')
     else
     (case (if length certsForCN \<noteq> 0 then
              (case VerifyRoot tm root 0 (CertsToKeys tm certsForCN) of
                 Some err \<Rightarrow> Inl (ErrValidationFail
                   ''failed to validate data with current trusted certificates'')
               | None \<Rightarrow> Inr allValidCerts)
            else bootstrapTrust tm signedRoot gun trustPinning allValidCerts) of
        Inl err \<Rightarrow> (Inl err, w')
      | Inr allValidCerts \<Rightarrow>
          (case VerifyRoot tm root 0 (CertsToKeys tm allValidCerts) of
             Some err \<Rightarrow> (Inl (ErrValidationFail ''failed to validate integrity of roots''), w')
           | None \<Rightarrow> (Inr (certsForCN, allValidCerts), w'))))))"

text \<open>
  The rotation (lines 206 to 231). Its \<^verbatim>\<open>Debugf\<close> calls are kept as the lines they
  write, so that what is only logged can be told from what is returned.
\<close>

datatype logline =
    IgnoringAddition string
  | ErrorAdding string error
  | Removing string
  | FailedToRemove string error

fun addLoop ::
  "'w X509Store \<Rightarrow> string \<Rightarrow> Certificate list \<Rightarrow> 'w \<Rightarrow> logline list \<times> 'w" where
  "addLoop certStore gun [] w = ([], w)"
| "addLoop certStore gun (cert # rest) w =
     (case AddCert certStore cert w of
        (None, w') \<Rightarrow> addLoop certStore gun rest w'
      | (Some err, w') \<Rightarrow>
          (let line = (if err = ErrCertExists then IgnoringAddition gun else ErrorAdding gun err);
               (lines, w'') = addLoop certStore gun rest w'
           in (line # lines, w'')))"

fun deleteLoop ::
  "'w X509Store \<Rightarrow> (string \<times> Certificate) list \<Rightarrow> 'w \<Rightarrow>
   error option \<times> logline list \<times> 'w" where
  "deleteLoop certStore [] w = (None, [], w)"
| "deleteLoop certStore ((certID, cert) # rest) w =
     (case RemoveCert certStore cert w of
        (Some err, w') \<Rightarrow>
          (Some (ErrRootRotationFail ''failed to rotate root keys''),
           [Removing certID, FailedToRemove certID err], w')
      | (None, w') \<Rightarrow>
          (let (r, lines, w'') = deleteLoop certStore rest w'
           in (r, Removing certID # lines, w'')))"

definition rotateCerts ::
  "('r, 'k) trustmanager \<Rightarrow> 'w X509Store \<Rightarrow> string \<Rightarrow> Certificate list \<Rightarrow>
   Certificate list \<Rightarrow> 'w \<Rightarrow> error option \<times> logline list \<times> 'w" where
  "rotateCerts tm certStore gun certsForCN allValidCerts w =
     (let (added, w') = addLoop certStore gun allValidCerts w;
          (r, removed, w'') = deleteLoop certStore (certsToRemove tm certsForCN allValidCerts) w'
      in (r, added @ removed, w''))"

definition ValidateRoot ::
  "('r, 'k) trustmanager \<Rightarrow> 'w X509Store \<Rightarrow> 'r \<Rightarrow> string \<Rightarrow> TrustPinConfig \<Rightarrow> 'w \<Rightarrow>
   error option \<times> logline list \<times> 'w" where
  "ValidateRoot tm certStore root gun trustPinning w =
     (case validateTrust tm certStore root gun trustPinning w of
        (Inl err, w') \<Rightarrow> (Some err, [], w')
      | (Inr (certsForCN, allValidCerts), w') \<Rightarrow>
          rotateCerts tm certStore gun certsForCN allValidCerts w')"

section \<open>timestamp.go\<close>

text \<open>
  Modelled from the spec: \<^verbatim>\<open>data.PublicKey\<close> and \<^verbatim>\<open>data.NewPublicKey\<close> are not in the
  sources; a signing key record is an algorithm with public key bytes.
\<close>

record PublicKey =
  Algorithm :: string
  Public :: string

definition NewPublicKey :: "string \<Rightarrow> string \<Rightarrow> PublicKey" where
  "NewPublicKey alg public = \<lparr>Algorithm = alg, Public = public\<rparr>"

definition CanonicalRootRole :: string where
  "CanonicalRootRole = ''root''"

definition CanonicalSnapshotRole :: string where
  "CanonicalSnapshotRole = ''snapshot''"

definition CanonicalTimestampRole :: string where
  "CanonicalTimestampRole = ''timestamp''"

record MetaUpdate =
  Role :: string
  Version :: int
  Data :: string

text \<open>
  \<^verbatim>\<open>storage.MetaStore\<close> and \<^verbatim>\<open>signed.CryptoService\<close> are interfaces: records of the
  methods used, over the state \<open>'w\<close> that the store and the key service live in. A method
  that returns values with an error gives \<open>Inl\<close> the error or \<open>Inr\<close> the values.
\<close>

record 'w MetaStore =
  GetCurrent :: "string \<Rightarrow> string \<Rightarrow> 'w \<Rightarrow> (error + int \<times> string) \<times> 'w"
  UpdateCurrent :: "string \<Rightarrow> MetaUpdate \<Rightarrow> 'w \<Rightarrow> error option \<times> 'w"
  GetKey :: "string \<Rightarrow> string \<Rightarrow> 'w \<Rightarrow> (error + string \<times> string) \<times> 'w"
  SetKey :: "string \<Rightarrow> string \<Rightarrow> string \<Rightarrow> string \<Rightarrow> 'w \<Rightarrow> error option \<times> 'w"

record 'w CryptoService =
  Create :: "string \<Rightarrow> string \<Rightarrow> string \<Rightarrow> 'w \<Rightarrow> (error + PublicKey) \<times> 'w"

subsection \<open>GetOrCreateTimestampKey\<close>

definition GetOrCreateTimestampKey ::
  "string \<Rightarrow> 'w MetaStore \<Rightarrow> 'w CryptoService \<Rightarrow> string \<Rightarrow> 'w \<Rightarrow> (error + PublicKey) \<times> 'w" where
  "GetOrCreateTimestampKey gun store crypto createAlgorithm w =
     (case GetKey store gun CanonicalTimestampRole w of
        (Inr (keyAlgorithm, public), w1) \<Rightarrow> (Inr (NewPublicKey keyAlgorithm public), w1)
      | (Inl err, w1) \<Rightarrow>
          if err = ErrNoKey then
            (case Create crypto ''timestamp'' gun createAlgorithm w1 of
               (Inl err, w2) \<Rightarrow> (Inl err, w2)
             | (Inr key, w2) \<Rightarrow>
                 (case SetKey store gun CanonicalTimestampRole (Algorithm key) (Public key) w2 of
                    (None, w3) \<Rightarrow> (Inr key, w3)
                  | (Some err, w3) \<Rightarrow>
                      if err = ErrKeyExists then
                        (case GetKey store gun CanonicalTimestampRole w3 of
                           (Inl err, w4) \<Rightarrow> (Inl err, w4)
                         | (Inr (keyAlgorithm, public), w4) \<Rightarrow>
                             (Inr (NewPublicKey keyAlgorithm public), w4))
                      else (Inl err, w3)))
          else (Inl err, w1))"

subsection \<open>GetOrCreateSnapshotKey\<close>

text \<open>
  Modelled from the spec: \<^verbatim>\<open>snapshot.GetOrCreateSnapshotKey\<close> is not in the sources (only
  its tests are). It is the key registry of the specification at the snapshot role: get
  the key and return it if found; on the store's "no key" create one with
  \<^verbatim>\<open>Create(role, gun, algorithm)\<close>, a failure of which is returned; set it, and return the new
  key on success, re-read with \<^verbatim>\<open>GetKey\<close> and return what now exists on "key already
  exists", return any other failure. Failures that the specification does not name are
  returned unchanged.
\<close>

definition GetOrCreateSnapshotKey ::
  "string \<Rightarrow> 'w MetaStore \<Rightarrow> 'w CryptoService \<Rightarrow> string \<Rightarrow> 'w \<Rightarrow> (error + PublicKey) \<times> 'w" where
  "GetOrCreateSnapshotKey gun store crypto createAlgorithm w =
     (case GetKey store gun CanonicalSnapshotRole w of
        (Inr (keyAlgorithm, public), w1) \<Rightarrow> (Inr (NewPublicKey keyAlgorithm public), w1)
      | (Inl err, w1) \<Rightarrow>
          if err = ErrNoKey then
            (case Create crypto CanonicalSnapshotRole gun createAlgorithm w1 of
               (Inl err, w2) \<Rightarrow> (Inl err, w2)
             | (Inr key, w2) \<Rightarrow>
                 (case SetKey store gun CanonicalSnapshotRole (Algorithm key) (Public key) w2 of
                    (None, w3) \<Rightarrow> (Inr key, w3)
                  | (Some err, w3) \<Rightarrow>
                      if err = ErrKeyExists then
                        (case GetKey store gun CanonicalSnapshotRole w3 of
                           (Inl err, w4) \<Rightarrow> (Inl err, w4)
                         | (Inr (keyAlgorithm, public), w4) \<Rightarrow>
                             (Inr (NewPublicKey keyAlgorithm public), w4))
                      else (Inl err, w3)))
          else (Inl err, w1))"

subsection \<open>GetOrCreateTimestamp\<close>

text \<open>
  The fields of \<^verbatim>\<open>data.SignedTimestamp\<close> that the code reads: \<^verbatim>\<open>Signed.Expires\<close>,
  \<^verbatim>\<open>Signed.Version\<close> and the hashes of \<^verbatim>\<open>Signed.Meta[role]\<close>.
\<close>

record SignedTimestamp =
  Expires :: int
  TsVersion :: int
  Meta :: "string \<Rightarrow> (string \<times> string) list option"

text \<open>
  \<^verbatim>\<open>tuf.Repo\<close>: the crypto service it was made with and the documents set so far.
  \<open>'d\<close> is a decoded or signed document whose content the code does not read.
\<close>

record ('w, 'd) Repo =
  cryptoService :: "'w CryptoService"
  Root :: "'d option"
  Snapshot :: "'d option"
  Timestamp :: "SignedTimestamp option"

definition NewRepo :: "'w CryptoService \<Rightarrow> ('w, 'd) Repo" where
  "NewRepo crypto = \<lparr>cryptoService = crypto, Root = None, Snapshot = None, Timestamp = None\<rparr>"

text \<open>
  What \<^verbatim>\<open>timestamp.go\<close> calls outside itself, as parameters: the JSON codec at each type,
  \<^verbatim>\<open>snapshot.GetOrCreateSnapshot\<close>, \<^verbatim>\<open>signed.IsExpired\<close>, \<^verbatim>\<open>data.CheckHashes\<close>,
  \<^verbatim>\<open>data.DefaultExpires\<close>, the repository's \<^verbatim>\<open>InitTimestamp\<close> and \<^verbatim>\<open>SignTimestamp\<close>
  (which change the repository) and \<^verbatim>\<open>time.Now\<close>.
\<close>

record ('w, 'd) tuf =
  UnmarshalTimestamp :: "string \<Rightarrow> error + SignedTimestamp"
  UnmarshalRoot :: "string \<Rightarrow> error + 'd"
  UnmarshalSnapshot :: "string \<Rightarrow> error + 'd"
  Marshal :: "'d \<Rightarrow> error + string"
  GetOrCreateSnapshot ::
    "string \<Rightarrow> 'w MetaStore \<Rightarrow> 'w CryptoService \<Rightarrow> 'w \<Rightarrow> (error + int \<times> string) \<times> 'w"
  IsExpired :: "int \<Rightarrow> bool"
  CheckHashes :: "string \<Rightarrow> (string \<times> string) list \<Rightarrow> error option"
  DefaultExpires :: "string \<Rightarrow> int"
  InitTimestamp :: "('w, 'd) Repo \<Rightarrow> error + ('w, 'd) Repo"
  SignTimestamp :: "('w, 'd) Repo \<Rightarrow> int \<Rightarrow> 'w \<Rightarrow> (error + 'd \<times> ('w, 'd) Repo) \<times> 'w"
  TimeNow :: int

definition timestampExpired :: "('w, 'd) tuf \<Rightarrow> SignedTimestamp \<Rightarrow> bool" where
  "timestampExpired t ts = IsExpired t (Expires ts)"

text \<open>A role missing from \<^verbatim>\<open>Meta\<close> reads as the zero value, whose hashes are empty.\<close>

definition snapshotExpired :: "('w, 'd) tuf \<Rightarrow> SignedTimestamp \<Rightarrow> string \<Rightarrow> bool" where
  "snapshotExpired t ts snapshot \<longleftrightarrow>
     CheckHashes t snapshot
       (case Meta ts CanonicalSnapshotRole of None \<Rightarrow> [] | Some hashes \<Rightarrow> hashes) \<noteq> None"

definition NewTimestampUpdate ::
  "('w, 'd) tuf \<Rightarrow> SignedTimestamp option \<Rightarrow> ('w, 'd) Repo \<Rightarrow> 'w \<Rightarrow> (error + MetaUpdate) \<times> 'w" where
  "NewTimestampUpdate t prev repo w =
     (case (case prev of
              Some p \<Rightarrow> Inr (repo\<lparr>Timestamp := Some p\<rparr>)
            | None \<Rightarrow> InitTimestamp t repo) of
        Inl err \<Rightarrow> (Inl err, w)
      | Inr repo \<Rightarrow>
          (case SignTimestamp t repo (DefaultExpires t CanonicalTimestampRole) w of
             (Inl err, w1) \<Rightarrow> (Inl err, w1)
           | (Inr (sgnd, repo), w1) \<Rightarrow>
               (case Marshal t sgnd of
                  Inl err \<Rightarrow> (Inl err, w1)
                | Inr sgndJSON \<Rightarrow>
                    (case Timestamp repo of
                       None \<Rightarrow> (Inl (Panic ''nil pointer dereference''), w1)
                     | Some ts \<Rightarrow>
                         (Inr \<lparr>Role = CanonicalTimestampRole, Version = TsVersion ts,
                               Data = sgndJSON\<rparr>, w1)))))"

definition createTimestamp ::
  "('w, 'd) tuf \<Rightarrow> string \<Rightarrow> SignedTimestamp option \<Rightarrow> string \<Rightarrow> 'w MetaStore \<Rightarrow>
   'w CryptoService \<Rightarrow> 'w \<Rightarrow> (error + MetaUpdate) \<times> 'w" where
  "createTimestamp t gun prev snapshot store crypto w =
     (let repo = NewRepo crypto in
      case GetCurrent store gun CanonicalRootRole w of
        (Inl err, w1) \<Rightarrow> (Inl err, w1)
      | (Inr (_, root), w1) \<Rightarrow>
          (case UnmarshalRoot t root of
             Inl err \<Rightarrow> (Inl err, w1)
           | Inr r \<Rightarrow>
               (let repo = repo\<lparr>Root := Some r\<rparr> in
                case UnmarshalSnapshot t snapshot of
                  Inl err \<Rightarrow> (Inl err, w1)
                | Inr sn \<Rightarrow>
                    (let repo = repo\<lparr>Snapshot := Some sn\<rparr>
                     in NewTimestampUpdate t prev repo w1))))"

text \<open>
  \<^verbatim>\<open>prev := &data.SignedTimestamp{}\<close> is never nil, so \<^verbatim>\<open>createTimestamp\<close> gets
  \<open>Some prev\<close>.
\<close>

definition GetOrCreateTimestamp ::
  "('w, 'd) tuf \<Rightarrow> string \<Rightarrow> 'w MetaStore \<Rightarrow> 'w CryptoService \<Rightarrow> 'w \<Rightarrow>
   (error + int \<times> string) \<times> 'w" where
  "GetOrCreateTimestamp t gun store crypto w =
     (case GetCurrent store gun CanonicalTimestampRole w of
        (Inl err, w1) \<Rightarrow> (Inl err, w1)
      | (Inr (lastModified, timestampJSON), w1) \<Rightarrow>
          (case UnmarshalTimestamp t timestampJSON of
             Inl err \<Rightarrow> (Inl err, w1)
           | Inr prev \<Rightarrow>
               (case GetOrCreateSnapshot t gun store crypto w1 of
                  (Inl err, w2) \<Rightarrow> (Inl err, w2)
                | (Inr (_, snapshot), w2) \<Rightarrow>
                    if \<not> timestampExpired t prev \<and> \<not> snapshotExpired t prev snapshot
                    then (Inr (lastModified, timestampJSON), w2)
                    else
                      (case createTimestamp t gun (Some prev) snapshot store crypto w2 of
                         (Inl err, w3) \<Rightarrow> (Inl err, w3)
                       | (Inr update, w3) \<Rightarrow>
                           (let c = TimeNow t in
                            case UpdateCurrent store gun update w3 of
                              (Some err, w4) \<Rightarrow> (Inl err, w4)
                            | (None, w4) \<Rightarrow> (Inr (c, Data update), w4))))))"

section \<open>Notions used in the statements\<close>

text \<open>A result of \<open>ValidateRoot\<close> that is an \<^verbatim>\<open>ErrValidationFail\<close>, whatever its reason.\<close>

definition isValidationFail :: "error option \<Rightarrow> bool" where
  "isValidationFail r = (case r of Some (ErrValidationFail reason) \<Rightarrow> True | _ \<Rightarrow> False)"

text \<open>
  A candidate's chain verifies against a CA: the candidate has a fingerprint and
  \<^verbatim>\<open>cert.Verify\<close> accepts it with that CA as the only root and, as intermediates, the
  certificates that the root document bundles under the candidate's fingerprint.
\<close>

definition chainVerifies ::
  "('r, 'k) trustmanager \<Rightarrow> SignedRoot \<Rightarrow> Certificate \<Rightarrow> Certificate \<Rightarrow> bool" where
  "chainVerifies tm signedRoot caCert cert =
     (case FingerprintCert tm cert of
        Inl err \<Rightarrow> False
      | Inr certID \<Rightarrow>
          Verify tm cert [caCert]
            (case map_of (snd (parseAllCerts tm signedRoot)) certID of
               Some intermediateCertList \<Rightarrow> intermediateCertList
             | None \<Rightarrow> []) = None)"

text \<open>A candidate's chain verifies against the CA of every entry whose key is a prefix of the GUN.\<close>

definition verifiesUnderAll ::
  "('r, 'k) trustmanager \<Rightarrow> SignedRoot \<Rightarrow> string \<Rightarrow> (string \<times> string) list \<Rightarrow>
   Certificate \<Rightarrow> bool" where
  "verifiesUnderAll tm signedRoot gun cas cert =
     list_all (\<lambda>(caGunPrefix, caFilepath).
        if prefix caGunPrefix gun then
          (case LoadCertFromFile tm caFilepath of
             Inl err \<Rightarrow> False
           | Inr caCert \<Rightarrow> chainVerifies tm signedRoot caCert cert)
        else True) cas"

text \<open>The freshness test of \<open>GetOrCreateTimestamp\<close>, in the words of the specification.\<close>

definition fresh :: "('w, 'd) tuf \<Rightarrow> SignedTimestamp \<Rightarrow> string \<Rightarrow> bool" where
  "fresh t ts snapshot \<longleftrightarrow>
     \<not> IsExpired t (Expires ts) \<and>
     CheckHashes t snapshot
       (case Meta ts CanonicalSnapshotRole of None \<Rightarrow> [] | Some hashes \<Rightarrow> hashes) = None"

section \<open>Test doubles\<close>

text \<open>
  Concrete collaborators on which the functions are run. A signed document is its decoded
  root, when it decodes, with the certificates whose keys signed it validly; a
  certificate's fingerprint is its encoding; \<^verbatim>\<open>VerifyRoot\<close> accepts one valid signature
  by a key of the set. PEM bundles, CA files and the issuing relation are tables.
\<close>

record Signed =
  Payload :: "SignedRoot option"
  SignedBy :: "string list"

definition leaf :: "string \<Rightarrow> string \<Rightarrow> int \<Rightarrow> SignatureAlgorithm \<Rightarrow> Certificate" where
  "leaf raw cn notAfter alg =
     \<lparr>Raw = raw, CommonName = cn, NotAfter = notAfter, SigAlg = alg, IsCA = False\<rparr>"

definition authority :: "string \<Rightarrow> Certificate" where
  "authority raw =
     \<lparr>Raw = raw, CommonName = raw, NotAfter = 2000, SigAlg = SHA256WithRSA, IsCA = True\<rparr>"

definition certA :: Certificate where
  "certA = leaf ''A'' ''repo'' 2000 SHA256WithRSA"

definition certB :: Certificate where
  "certB = leaf ''B'' ''repo'' 2000 SHA256WithRSA"

definition certAB :: Certificate where
  "certAB = leaf ''AB'' ''repo'' 2000 SHA256WithRSA"

definition certOld :: Certificate where
  "certOld = leaf ''Old'' ''repo'' 500 SHA256WithRSA"

definition certSHA1 :: Certificate where
  "certSHA1 = leaf ''Weak'' ''repo'' 2000 SHA1WithRSA"

definition certOther :: Certificate where
  "certOther = leaf ''Other'' ''elsewhere'' 2000 SHA256WithRSA"

definition testBundles :: "(string \<times> Certificate list) list" where
  "testBundles =
     [(''pemA'', [certA]), (''pemB'', [certB]), (''pemAB'', [certAB]), (''pemOld'', [certOld]),
      (''pemSHA1'', [certSHA1]), (''pemOther'', [certOther])]"

definition testKeys :: "(string \<times> string) list" where
  "testKeys =
     [(''kA'', ''pemA''), (''kB'', ''pemB''), (''kAB'', ''pemAB''), (''kOld'', ''pemOld''),
      (''kSHA1'', ''pemSHA1''), (''kOther'', ''pemOther'')]"

definition testFiles :: "(string \<times> Certificate) list" where
  "testFiles = [(''ca1.pem'', authority ''CA1''), (''ca2.pem'', authority ''CA2'')]"

definition testIssued :: "(string \<times> string) list" where
  "testIssued = [(''A'', ''CA1''), (''B'', ''CA2''), (''AB'', ''CA1''), (''AB'', ''CA2'')]"

definition testTM :: "(Signed, string list) trustmanager" where
  "testTM =
     \<lparr>FingerprintCert = (\<lambda>cert. Inr (Raw cert)),
      LoadCertBundleFromPEM = (\<lambda>pem.
        case map_of testBundles pem of
          None \<Rightarrow> Inl (ErrOther ''no valid certificates found'')
        | Some certs \<Rightarrow> Inr certs),
      LoadCertFromFile = (\<lambda>path.
        case map_of testFiles path of
          None \<Rightarrow> Inl (ErrOther ''no such file'')
        | Some cert \<Rightarrow> Inr cert),
      ValidateCertificate = (\<lambda>cert.
        if IsCA cert then None else Some (ErrOther ''certificate is not a CA'')),
      CertsToKeys = map Raw,
      RootFromSigned = (\<lambda>root.
        case Payload root of
          None \<Rightarrow> Inl (ErrOther ''unexpected end of JSON input'')
        | Some signedRoot \<Rightarrow> Inr signedRoot),
      VerifyRoot = (\<lambda>root threshold keys.
        if list_ex (\<lambda>k. k \<in> set (SignedBy root)) keys then None
        else Some (ErrOther ''valid signatures did not meet threshold'')),
      Verify = (\<lambda>cert roots intermediates.
        if list_ex (\<lambda>ca. (Raw cert, Raw ca) \<in> set testIssued) roots then None
        else Some (ErrOther ''certificate signed by unknown authority'')),
      Now = 1000\<rparr>"

definition signedRootOf :: "string list \<Rightarrow> SignedRoot" where
  "signedRootOf keyIDs = \<lparr>Roles = map_of [(''root'', keyIDs)], Keys = map_of testKeys\<rparr>"

definition testRoot :: "string list \<Rightarrow> string list \<Rightarrow> Signed" where
  "testRoot keyIDs signers = \<lparr>Payload = Some (signedRootOf keyIDs), SignedBy = signers\<rparr>"

definition undecodableRoot :: Signed where
  "undecodableRoot = \<lparr>Payload = None, SignedBy = []\<rparr>"

text \<open>A certificate store in memory: the list of the trusted certificates.\<close>

definition memCertStore :: "Certificate list X509Store" where
  "memCertStore =
     \<lparr>GetCertificatesByCN = (\<lambda>cn w.
        if filter (\<lambda>cert. CommonName cert = cn) w = []
        then (([], Some ErrNoCertificatesFound), w)
        else ((filter (\<lambda>cert. CommonName cert = cn) w, None), w)),
      AddCert = (\<lambda>cert w.
        if cert \<in> set w then (Some ErrCertExists, w) else (None, w @ [cert])),
      RemoveCert = (\<lambda>cert w.
        if cert \<in> set w then (None, removeAll cert w)
        else (Some (ErrOther ''certificate not found''), w))\<rparr>"

text \<open>The same store when its directory cannot be written: it adds and removes nothing.\<close>

definition readOnlyCertStore :: "Certificate list X509Store" where
  "readOnlyCertStore =
     memCertStore
       \<lparr>AddCert := (\<lambda>cert w. (Some (ErrOther ''permission denied''), w)),
        RemoveCert := (\<lambda>cert w. (Some (ErrOther ''permission denied''), w))\<rparr>"

text \<open>The same store when its disk is full: nothing can be added, removal works.\<close>

definition fullDiskCertStore :: "Certificate list X509Store" where
  "fullDiskCertStore =
     memCertStore
       \<lparr>AddCert := (\<lambda>cert w. (Some (ErrOther ''no space left on device''), w)),
        RemoveCert := (\<lambda>cert w. (None, removeAll cert w))\<rparr>"

definition noPins :: "bool \<Rightarrow> TrustPinConfig" where
  "noPins tofu = \<lparr>Certs = Map.empty, CA = [], TOFU = tofu\<rparr>"

definition twoCAs :: TrustPinConfig where
  "twoCAs = \<lparr>Certs = Map.empty, CA = [(''r'', ''ca1.pem''), (''re'', ''ca2.pem'')], TOFU = False\<rparr>"

text \<open>
  The store of \<^verbatim>\<open>TestGetSnapshotKeyExistsOnSet\<close> (\<^verbatim>\<open>keyStore\<close> in the test file): its
  first \<^verbatim>\<open>GetKey\<close> finds no key, every later one returns the key \<open>ksKey\<close>, and every
  \<^verbatim>\<open>SetKey\<close> fails because the key exists: the store as seen by the loser of a race.
  The world also counts the keys that the crypto service has made. The test's store has no
  metadata methods; here they find nothing and store nothing.
\<close>

record KeyStoreWorld =
  ksGetCalled :: bool
  ksKey :: PublicKey
  ksMade :: nat

definition keyStore :: "KeyStoreWorld MetaStore" where
  "keyStore =
     \<lparr>GetCurrent = (\<lambda>gun role w. (Inl ErrNotFound, w)),
      UpdateCurrent = (\<lambda>gun update w. (None, w)),
      GetKey = (\<lambda>gun role w.
        if ksGetCalled w
        then (Inr (Algorithm (ksKey w), Public (ksKey w)), w\<lparr>ksGetCalled := True\<rparr>)
        else (Inl ErrNoKey, w\<lparr>ksGetCalled := True\<rparr>)),
      SetKey = (\<lambda>gun role algorithm public w. (Some ErrKeyExists, w))\<rparr>"

definition keyStoreCrypto :: "KeyStoreWorld CryptoService" where
  "keyStoreCrypto =
     \<lparr>Create = (\<lambda>role gun algorithm w.
        (Inr \<lparr>Algorithm = algorithm, Public = replicate (Suc (ksMade w)) CHR ''x''\<rparr>,
         w\<lparr>ksMade := Suc (ksMade w)\<rparr>))\<rparr>"

definition winnerKey :: PublicKey where
  "winnerKey = \<lparr>Algorithm = ''ed25519'', Public = ''winner''\<rparr>"

definition raceWorld :: KeyStoreWorld where
  "raceWorld = \<lparr>ksGetCalled = False, ksKey = winnerKey, ksMade = 0\<rparr>"

text \<open>
  A metadata store in memory: per GUN and role the current version with its bytes, and
  the key. \<^verbatim>\<open>UpdateCurrent\<close> refuses a version that is not newer; \<^verbatim>\<open>SetKey\<close> refuses a
  second key.
\<close>

record MemWorld =
  memMeta :: "((string \<times> string) \<times> int \<times> string) list"
  memKeys :: "((string \<times> string) \<times> string \<times> string) list"
  memMade :: nat

definition memMetaStore :: "MemWorld MetaStore" where
  "memMetaStore =
     \<lparr>GetCurrent = (\<lambda>gun role w.
        case map_of (memMeta w) (gun, role) of
          None \<Rightarrow> (Inl ErrNotFound, w)
        | Some (version, bytes) \<Rightarrow> (Inr (900, bytes), w)),
      UpdateCurrent = (\<lambda>gun update w.
        case map_of (memMeta w) (gun, Role update) of
          None \<Rightarrow>
            (None, w\<lparr>memMeta :=
               AList.update (gun, Role update) (Version update, Data update) (memMeta w)\<rparr>)
        | Some (version, bytes) \<Rightarrow>
            if Version update \<le> version then (Some (ErrOther ''old version''), w)
            else (None, w\<lparr>memMeta :=
               AList.update (gun, Role update) (Version update, Data update) (memMeta w)\<rparr>)),
      GetKey = (\<lambda>gun role w.
        case map_of (memKeys w) (gun, role) of
          None \<Rightarrow> (Inl ErrNoKey, w)
        | Some key \<Rightarrow> (Inr key, w)),
      SetKey = (\<lambda>gun role algorithm public w.
        case map_of (memKeys w) (gun, role) of
          None \<Rightarrow>
            (None, w\<lparr>memKeys := AList.update (gun, role) (algorithm, public) (memKeys w)\<rparr>)
        | Some key \<Rightarrow> (Some ErrKeyExists, w))\<rparr>"

text \<open>The same store when the database cannot be reached.\<close>

definition unreachableStore :: "MemWorld MetaStore" where
  "unreachableStore =
     memMetaStore\<lparr>GetKey := (\<lambda>gun role w. (Inl (ErrOther ''connection refused''), w))\<rparr>"

definition memCrypto :: "MemWorld CryptoService" where
  "memCrypto =
     \<lparr>Create = (\<lambda>role gun algorithm w.
        (Inr \<lparr>Algorithm = algorithm, Public = replicate (Suc (memMade w)) CHR ''x''\<rparr>,
         w\<lparr>memMade := Suc (memMade w)\<rparr>))\<rparr>"

text \<open>
  Timestamps by their stored bytes, and a repository whose signing bumps the version, sets
  the expiry and records the hash of the snapshot it holds. The clock stands at 1000; the
  snapshot engine returns the stored snapshot.
\<close>

definition testTimestamps :: "(string \<times> SignedTimestamp) list" where
  "testTimestamps =
     [(''ts1'', \<lparr>Expires = 1500, TsVersion = 1,
                 Meta = map_of [(''snapshot'', [(''sha256'', ''sha256:snap1'')])]\<rparr>),
      (''tsOld'', \<lparr>Expires = 500, TsVersion = 1,
                   Meta = map_of [(''snapshot'', [(''sha256'', ''sha256:snap1'')])]\<rparr>)]"

definition testTuf :: "(MemWorld, string) tuf" where
  "testTuf =
     \<lparr>UnmarshalTimestamp = (\<lambda>bytes.
        case map_of testTimestamps bytes of
          None \<Rightarrow> Inl (ErrOther ''invalid character'')
        | Some ts \<Rightarrow> Inr ts),
      UnmarshalRoot = Inr,
      UnmarshalSnapshot = Inr,
      Marshal = Inr,
      GetOrCreateSnapshot = (\<lambda>gun store crypto w. GetCurrent store gun CanonicalSnapshotRole w),
      IsExpired = (\<lambda>expires. expires < 1000),
      CheckHashes = (\<lambda>payload hashes.
        if map_of hashes ''sha256'' = Some (''sha256:'' @ payload) then None
        else Some (ErrOther ''checksum mismatch'')),
      DefaultExpires = (\<lambda>role. 3000),
      InitTimestamp = (\<lambda>repo.
        Inr (repo\<lparr>Timestamp := Some \<lparr>Expires = 0, TsVersion = 0, Meta = Map.empty\<rparr>\<rparr>)),
      SignTimestamp = (\<lambda>repo expires w.
        case (Timestamp repo, Snapshot repo) of
          (Some ts, Some sn) \<Rightarrow>
            (Inr (''timestamp of '' @ sn,
                  repo\<lparr>Timestamp := Some \<lparr>Expires = expires, TsVersion = TsVersion ts + 1,
                    Meta = map_of [(''snapshot'', [(''sha256'', ''sha256:'' @ sn)])]\<rparr>\<rparr>), w)
        | _ \<Rightarrow> (Inl (ErrOther ''repository not loaded''), w)),
      TimeNow = 1000\<rparr>"

definition memWorld :: "(string \<times> string) list \<Rightarrow> MemWorld" where
  "memWorld docs =
     \<lparr>memMeta = map (\<lambda>(role, bytes). ((''gun'', role), (1, bytes))) docs,
      memKeys = [], memMade = 0\<rparr>"

section \<open>The loops of the rotation\<close>

text \<open>
  The removal loop has two outcomes. It fails with \<^verbatim>\<open>ErrRootRotationFail\<close> exactly when,
  somewhere in its list, the removals before have succeeded and the removal then made, in
  the state they left, fails. The addition loop has no outcome at all: it returns its log
  and the store, and an addition that fails in the state the loop has reached, with an
  error other than \<^verbatim>\<open>ErrCertExists\<close>, is in the log.
\<close>

lemma deleteLoop_outcome:
  "fst (deleteLoop certStore R w) = None \<or>
   fst (deleteLoop certStore R w) = Some (ErrRootRotationFail ''failed to rotate root keys'')"
proof (induction R arbitrary: w)
  case Nil
  then show ?case by simp
next
  case (Cons a R)
  obtain i c where a: "a = (i, c)" by (cases a)
  obtain e w' where r: "RemoveCert certStore c w = (e, w')" by (cases "RemoveCert certStore c w")
  show ?case using a r Cons.IH [of w'] by (cases e) (auto split: prod.splits)
qed

lemma deleteLoop_Cons_ok:
  "RemoveCert certStore cert w = (None, w') \<Longrightarrow>
   deleteLoop certStore ((certID, cert) # rest) w =
     (fst (deleteLoop certStore rest w'),
      Removing certID # fst (snd (deleteLoop certStore rest w')),
      snd (snd (deleteLoop certStore rest w')))"
  by (simp add: split_beta)

lemma deleteLoop_any_failure:
  "deleteLoop certStore pre w = (None, lines, w1) \<Longrightarrow>
   fst (RemoveCert certStore cert w1) \<noteq> None \<Longrightarrow>
   fst (deleteLoop certStore (pre @ (certID, cert) # post) w) =
     Some (ErrRootRotationFail ''failed to rotate root keys'')"
proof (induction pre arbitrary: w lines)
  case Nil
  then have "w1 = w" by simp
  then obtain err w' where "RemoveCert certStore cert w = (Some err, w')"
    using Nil.prems(2) by (cases "RemoveCert certStore cert w") auto
  then show ?case by simp
next
  case (Cons a pre)
  obtain i c where a: "a = (i, c)" by (cases a)
  obtain e w' where r: "RemoveCert certStore c w = (e, w')" by (cases "RemoveCert certStore c w")
  have e: "e = None" using Cons.prems(1) a r by (cases e) auto
  obtain r' l' w'' where d: "deleteLoop certStore pre w' = (r', l', w'')"
    by (cases "deleteLoop certStore pre w'") auto
  have p: "deleteLoop certStore pre w' = (None, l', w1)"
    using Cons.prems(1) a r e d by simp
  have "fst (deleteLoop certStore (pre @ (certID, cert) # post) w') =
      Some (ErrRootRotationFail ''failed to rotate root keys'')"
    using p Cons.prems(2) by (rule Cons.IH)
  then show ?case using a r e by (simp add: split_beta)
qed

lemma deleteLoop_failure_split:
  "fst (deleteLoop certStore R w) \<noteq> None \<Longrightarrow>
   \<exists>pre certID cert post lines w1.
     R = pre @ (certID, cert) # post \<and>
     deleteLoop certStore pre w = (None, lines, w1) \<and>
     fst (RemoveCert certStore cert w1) \<noteq> None"
proof (induction R arbitrary: w)
  case Nil
  then show ?case by simp
next
  case (Cons a R)
  obtain i c where a: "a = (i, c)" by (cases a)
  obtain e w' where r: "RemoveCert certStore c w = (e, w')" by (cases "RemoveCert certStore c w")
  show ?case
  proof (cases e)
    case (Some err)
    have "a # R = [] @ (i, c) # R \<and> deleteLoop certStore [] w = (None, [], w) \<and>
        fst (RemoveCert certStore c w) \<noteq> None"
      using a r Some by simp
    then show ?thesis by blast
  next
    case None
    then have "fst (deleteLoop certStore R w') \<noteq> None"
      using Cons.prems a r by (simp add: split_beta)
    then obtain pre certID cert post lines w1 where
      s: "R = pre @ (certID, cert) # post" and
      d: "deleteLoop certStore pre w' = (None, lines, w1)" and
      f: "fst (RemoveCert certStore cert w1) \<noteq> None"
      using Cons.IH [of w'] by blast
    have "a # R = ((i, c) # pre) @ (certID, cert) # post \<and>
        deleteLoop certStore ((i, c) # pre) w = (None, Removing i # lines, w1) \<and>
        fst (RemoveCert certStore cert w1) \<noteq> None"
      using a s d f r None by (simp add: split_beta)
    then show ?thesis by blast
  qed
qed

lemma addLoop_append:
  "addLoop certStore gun (xs @ ys) w =
   (fst (addLoop certStore gun xs w) @ fst (addLoop certStore gun ys (snd (addLoop certStore gun xs w))),
    snd (addLoop certStore gun ys (snd (addLoop certStore gun xs w))))"
proof (induction xs arbitrary: w)
  case Nil
  then show ?case by simp
next
  case (Cons x xs)
  obtain r w' where a: "AddCert certStore x w = (r, w')" by (cases "AddCert certStore x w")
  show ?case using a Cons.IH [of w'] by (cases r) (simp_all split: prod.splits)
qed

lemma addLoop_logs_at:
  "AddCert certStore cert (snd (addLoop certStore gun pre w)) = (Some e, w2) \<Longrightarrow>
   e \<noteq> ErrCertExists \<Longrightarrow>
   ErrorAdding gun e \<in> set (fst (addLoop certStore gun (pre @ cert # post) w))"
  by (simp add: addLoop_append split: prod.splits)

text \<open>The fingerprints of the new certificates.\<close>

lemma newCertIDs_fingerprints:
  "newCertIDs tm certs = {certID. \<exists>cert \<in> set certs. FingerprintCert tm cert = Inr certID}"
  by (induction certs) (auto split: sum.splits)

lemma removeLoop_sound:
  "(certID, cert) \<in> set (removeLoop tm new old acc) \<Longrightarrow>
   (certID, cert) \<in> set acc \<or>
   (cert \<in> set old \<and> FingerprintCert tm cert = Inr certID \<and> certID \<notin> new)"
proof (induction old arbitrary: acc)
  case Nil
  then show ?case by simp
next
  case (Cons c old)
  show ?case
  proof (cases "FingerprintCert tm c")
    case (Inl err)
    then show ?thesis using Cons.IH [of acc] Cons.prems by auto
  next
    case (Inr i)
    show ?thesis
    proof (cases "i \<in> new")
      case True
      then show ?thesis using Inr Cons.IH [of acc] Cons.prems by auto
    next
      case False
      then have "(certID, cert) \<in> set (removeLoop tm new old (AList.update i c acc))"
        using Inr Cons.prems by simp
      then have "(certID, cert) \<in> set (AList.update i c acc) \<or>
         (cert \<in> set old \<and> FingerprintCert tm cert = Inr certID \<and> certID \<notin> new)"
        using Cons.IH by blast
      moreover have "(certID, cert) \<in> set (AList.update i c acc) \<Longrightarrow>
         (certID, cert) \<in> set acc \<or> (certID = i \<and> cert = c)"
        by (induction acc) (auto split: if_splits)
      ultimately show ?thesis using Inr False by auto
    qed
  qed
qed

lemma certsToRemove_sound:
  "(certID, cert) \<in> set (certsToRemove tm oldCerts newCerts) \<Longrightarrow>
   cert \<in> set oldCerts \<and> FingerprintCert tm cert = Inr certID \<and> certID \<notin> newCertIDs tm newCerts"
  using removeLoop_sound [of certID cert tm "newCertIDs tm newCerts" oldCerts "[]"]
  by (auto simp: certsToRemove_def split: if_splits)

text \<open>
  The fingerprints to remove are those of the previously trusted certificates that are
  not fingerprints of a new one.
\<close>

lemma removeLoop_keys:
  "fst ` set (removeLoop tm new old acc) =
   fst ` set acc \<union> {certID. \<exists>cert \<in> set old. FingerprintCert tm cert = Inr certID \<and> certID \<notin> new}"
proof (induction old arbitrary: acc)
  case Nil
  then show ?case by simp
next
  case (Cons c old)
  show ?case
  proof (cases "FingerprintCert tm c")
    case (Inl err)
    then show ?thesis using Cons.IH [of acc] by auto
  next
    case (Inr i)
    show ?thesis
    proof (cases "i \<in> new")
      case True
      then show ?thesis using Inr Cons.IH [of acc] by auto
    next
      case False
      have "fst ` set (removeLoop tm new (c # old) acc) =
          fst ` set (AList.update i c acc) \<union>
          {certID. \<exists>cert \<in> set old. FingerprintCert tm cert = Inr certID \<and> certID \<notin> new}"
        using Inr False Cons.IH [of "AList.update i c acc"] by simp
      then show ?thesis using Inr False by (auto simp: dom_update)
    qed
  qed
qed

lemma certsToRemove_keys:
  "newCerts \<noteq> [] \<Longrightarrow>
   fst ` set (certsToRemove tm oldCerts newCerts) =
   {certID. \<exists>cert \<in> set oldCerts. FingerprintCert tm cert = Inr certID \<and>
      certID \<notin> newCertIDs tm newCerts}"
  by (simp add: certsToRemove_def removeLoop_keys)

section \<open>The loops as filters\<close>

lemma validLeafLoop_filter:
  "validLeafLoop tm gun certs =
   filter (\<lambda>cert. CommonName cert = gun \<and> \<not> NotAfter cert < Now tm \<and> \<not> usesSHA1 cert) certs"
  by (induction certs) auto

lemma validCertsForCA_filter:
  "validCertsForCA tm signedRoot caCert certs = filter (chainVerifies tm signedRoot caCert) certs"
  by (induction certs) (auto split: sum.splits simp: Let_def chainVerifies_def)

lemma verifiesUnderAll_Nil: "verifiesUnderAll tm signedRoot gun [] cert"
  by (simp add: verifiesUnderAll_def)

lemma verifiesUnderAll_Cons:
  "verifiesUnderAll tm signedRoot gun ((p, f) # cas) cert \<longleftrightarrow>
   (if prefix p gun then
      (case LoadCertFromFile tm f of
         Inl err \<Rightarrow> False
       | Inr caCert \<Rightarrow> chainVerifies tm signedRoot caCert cert)
    else True) \<and> verifiesUnderAll tm signedRoot gun cas cert"
  by (simp add: verifiesUnderAll_def)

lemma pinCALoop_filter:
  "pinCALoop tm signedRoot gun cas certs = Inr retained \<Longrightarrow>
   retained = filter (verifiesUnderAll tm signedRoot gun cas) certs"
proof (induction cas arbitrary: certs)
  case Nil
  then show ?case by (simp add: verifiesUnderAll_Nil)
next
  case (Cons a cas)
  obtain p f where a: "a = (p, f)" by (cases a)
  show ?case
  proof (cases "prefix p gun")
    case False
    then have "pinCALoop tm signedRoot gun cas certs = Inr retained"
      using Cons.prems a by simp
    then have "retained = filter (verifiesUnderAll tm signedRoot gun cas) certs"
      by (rule Cons.IH)
    then show ?thesis using False a by (simp add: verifiesUnderAll_Cons)
  next
    case True
    then obtain caCert where l: "LoadCertFromFile tm f = Inr caCert"
      and r: "pinCALoop tm signedRoot gun cas (validCertsForCA tm signedRoot caCert certs) = Inr retained"
      using Cons.prems a by (auto split: sum.splits option.splits)
    have "retained = filter (verifiesUnderAll tm signedRoot gun cas)
            (validCertsForCA tm signedRoot caCert certs)"
      using r by (rule Cons.IH)
    then show ?thesis
      using True a l by (simp add: verifiesUnderAll_Cons validCertsForCA_filter conj_commute)
  qed
qed

lemma pinCALoop_append:
  "pinCALoop tm signedRoot gun (cas @ cas') certs =
   (case pinCALoop tm signedRoot gun cas certs of
      Inl err \<Rightarrow> Inl err
    | Inr narrowed \<Rightarrow> pinCALoop tm signedRoot gun cas' narrowed)"
proof (induction cas arbitrary: certs)
  case Nil
  then show ?case by simp
next
  case (Cons a cas)
  obtain p f where a: "a = (p, f)" by (cases a)
  show ?case using Cons.IH a by (simp split: sum.splits option.splits)
qed

section \<open>The previous timestamp\<close>

text \<open>With a previous timestamp the repository's \<^verbatim>\<open>InitTimestamp\<close> is not called.\<close>

lemma createTimestamp_prev:
  "createTimestamp (t\<lparr>InitTimestamp := init\<rparr>) gun (Some prev) snapshot store crypto w =
   createTimestamp t gun (Some prev) snapshot store crypto w"
  by (simp add: createTimestamp_def NewTimestampUpdate_def Let_def
        cong: sum.case_cong prod.case_cong option.case_cong)

section \<open>Validation and rotation as a whole\<close>

text \<open>
  The outcome of the rotation is the outcome of its removal loop, and it is never an
  \<^verbatim>\<open>ErrValidationFail\<close>; so \<open>ValidateRoot\<close> fails validation exactly when the part before
  the rotation does.
\<close>

lemma rotateCerts_fst:
  "fst (rotateCerts tm certStore gun certsForCN allValidCerts w) =
   fst (deleteLoop certStore (certsToRemove tm certsForCN allValidCerts)
          (snd (addLoop certStore gun allValidCerts w)))"
  by (simp add: rotateCerts_def split: prod.splits)

lemma rotateCerts_log:
  "set (fst (addLoop certStore gun allValidCerts w)) \<subseteq>
   set (fst (snd (rotateCerts tm certStore gun certsForCN allValidCerts w)))"
  by (auto simp: rotateCerts_def split: prod.splits)

lemma rotateCerts_not_validation:
  "\<not> isValidationFail (fst (rotateCerts tm certStore gun certsForCN allValidCerts w))"
  using deleteLoop_outcome [of certStore "certsToRemove tm certsForCN allValidCerts"
      "snd (addLoop certStore gun allValidCerts w)"]
  by (auto simp: rotateCerts_fst isValidationFail_def)

lemma ValidateRoot_passes:
  "validateTrust tm certStore root gun trustPinning w = (Inr accepted, w') \<Longrightarrow>
   \<not> isValidationFail (fst (ValidateRoot tm certStore root gun trustPinning w))"
  using rotateCerts_not_validation [of tm certStore gun "fst accepted" "snd accepted" w']
  by (cases accepted) (simp add: ValidateRoot_def)

lemma ValidateRoot_fails:
  "validateTrust tm certStore root gun trustPinning w = (Inl (ErrValidationFail reason), w') \<Longrightarrow>
   isValidationFail (fst (ValidateRoot tm certStore root gun trustPinning w))"
  by (simp add: ValidateRoot_def isValidationFail_def)

lemma validateTrust_decided:
  assumes "RootFromSigned tm root = Inr signedRoot"
      and "validRootLeafCerts tm signedRoot gun = Inr leaves"
      and "GetCertificatesByCN certStore gun w = ((certsForCN, err), w')"
      and "err = None \<or> err = Some ErrNoCertificatesFound"
  shows "validateTrust tm certStore root gun trustPinning w =
     (case (if length certsForCN \<noteq> 0 then
              (case VerifyRoot tm root 0 (CertsToKeys tm certsForCN) of
                 Some err \<Rightarrow> Inl (ErrValidationFail
                   ''failed to validate data with current trusted certificates'')
               | None \<Rightarrow> Inr leaves)
            else bootstrapTrust tm signedRoot gun trustPinning leaves) of
        Inl err \<Rightarrow> (Inl err, w')
      | Inr allValidCerts \<Rightarrow>
          (case VerifyRoot tm root 0 (CertsToKeys tm allValidCerts) of
             Some err \<Rightarrow> (Inl (ErrValidationFail ''failed to validate integrity of roots''), w')
           | None \<Rightarrow> (Inr (certsForCN, allValidCerts), w')))"
  using assms(4)
proof
  assume "err = None"
  then show ?thesis using assms(1-3) by (simp add: validateTrust_def)
next
  assume "err = Some ErrNoCertificatesFound"
  then show ?thesis using assms(1-3) by (simp add: validateTrust_def)
qed

text \<open>
  The candidates retained by the CA pin do not depend on the order in which the entries
  are visited.
\<close>

lemma pinCALoop_order:
  assumes "pinCALoop tm signedRoot gun cas certs = Inr retained"
      and "pinCALoop tm signedRoot gun cas' certs = Inr retained'"
      and "set cas = set cas'"
    shows "retained = retained'"
proof -
  have "verifiesUnderAll tm signedRoot gun cas = verifiesUnderAll tm signedRoot gun cas'"
    using assms(3) by (auto simp: verifiesUnderAll_def list_all_iff fun_eq_iff)
  then show ?thesis
    using pinCALoop_filter [OF assms(1)] pinCALoop_filter [OF assms(2)] by simp
qed

section \<open>Unfolding the test doubles\<close>

lemmas certsDefs = ValidateRoot_def validateTrust_def rotateCerts_def certsToRemove_def
  bootstrapTrust_def validRootLeafCerts_def parseAllCerts_def GetLeafCerts_def
  GetIntermediateCerts_def usesSHA1_def ContainsKeyPrefix_def

lemmas fixtures = testTM_def testBundles_def testKeys_def testFiles_def testIssued_def
  signedRootOf_def testRoot_def undecodableRoot_def memCertStore_def readOnlyCertStore_def
  fullDiskCertStore_def noPins_def twoCAs_def certA_def certB_def certAB_def certOld_def
  certSHA1_def certOther_def leaf_def authority_def

lemmas tsDefs = GetOrCreateTimestampKey_def GetOrCreateTimestamp_def createTimestamp_def
  NewTimestampUpdate_def NewRepo_def timestampExpired_def snapshotExpired_def NewPublicKey_def
  CanonicalRootRole_def CanonicalSnapshotRole_def CanonicalTimestampRole_def

lemmas tsFixtures = keyStore_def keyStoreCrypto_def winnerKey_def raceWorld_def memMetaStore_def
  unreachableStore_def memCrypto_def testTimestamps_def testTuf_def memWorld_def

section \<open>The claims\<close>

text \<open>
  C1, as the code has it. Let the root decode, have valid leaf certificates \<open>leaves\<close>,
  and let the store answer with \<open>certsForCN\<close> (without error, or with
  \<^verbatim>\<open>ErrNoCertificatesFound\<close>). When the store holds certificates for the GUN, validation
  passes exactly when \<^verbatim>\<open>VerifyRoot\<close> with threshold 0 accepts the root against the stored
  certificates and also against the root's own valid leaves: two sets are used, not
  one. When the store holds none, validation passes exactly when \<^verbatim>\<open>VerifyRoot\<close> with
  threshold 0 accepts the root against the set that the pinning decision produced.
\<close>

theorem ValidateRoot_verifies_both_sets:
  assumes "RootFromSigned tm root = Inr signedRoot"
      and "validRootLeafCerts tm signedRoot gun = Inr leaves"
      and "GetCertificatesByCN certStore gun w = ((certsForCN, err), w')"
      and "err = None \<or> err = Some ErrNoCertificatesFound"
  shows "(certsForCN \<noteq> [] \<longrightarrow>
           (\<not> isValidationFail (fst (ValidateRoot tm certStore root gun trustPinning w)) \<longleftrightarrow>
            VerifyRoot tm root 0 (CertsToKeys tm certsForCN) = None \<and>
            VerifyRoot tm root 0 (CertsToKeys tm leaves) = None)) \<and>
         (certsForCN = [] \<longrightarrow>
           (\<forall>pinned. bootstrapTrust tm signedRoot gun trustPinning leaves = Inr pinned \<longrightarrow>
             (\<not> isValidationFail (fst (ValidateRoot tm certStore root gun trustPinning w)) \<longleftrightarrow>
              VerifyRoot tm root 0 (CertsToKeys tm pinned) = None)))"
proof (intro conjI impI allI)
  let ?v = "ValidateRoot tm certStore root gun trustPinning w"
  note d = validateTrust_decided [OF assms, of trustPinning]
  {
    assume ne: "certsForCN \<noteq> []"
    show "\<not> isValidationFail (fst ?v) \<longleftrightarrow>
            VerifyRoot tm root 0 (CertsToKeys tm certsForCN) = None \<and>
            VerifyRoot tm root 0 (CertsToKeys tm leaves) = None"
    proof (cases "VerifyRoot tm root 0 (CertsToKeys tm certsForCN)")
      case (Some e)
      then have "validateTrust tm certStore root gun trustPinning w =
          (Inl (ErrValidationFail ''failed to validate data with current trusted certificates''), w')"
        using d ne by simp
      then show ?thesis using Some ValidateRoot_fails by fastforce
    next
      case None
      show ?thesis
      proof (cases "VerifyRoot tm root 0 (CertsToKeys tm leaves)")
        case (Some e)
        then have "validateTrust tm certStore root gun trustPinning w =
            (Inl (ErrValidationFail ''failed to validate integrity of roots''), w')"
          using d ne None by simp
        then show ?thesis using Some ValidateRoot_fails by fastforce
      next
        case n: None
        then have "validateTrust tm certStore root gun trustPinning w =
            (Inr (certsForCN, leaves), w')"
          using d ne None by simp
        then show ?thesis using n None ValidateRoot_passes by fastforce
      qed
    qed
  }
  {
    fix pinned
    assume e: "certsForCN = []"
      and b: "bootstrapTrust tm signedRoot gun trustPinning leaves = Inr pinned"
    show "\<not> isValidationFail (fst ?v) \<longleftrightarrow> VerifyRoot tm root 0 (CertsToKeys tm pinned) = None"
    proof (cases "VerifyRoot tm root 0 (CertsToKeys tm pinned)")
      case (Some x)
      then have "validateTrust tm certStore root gun trustPinning w =
          (Inl (ErrValidationFail ''failed to validate integrity of roots''), w')"
        using d e b by simp
      then show ?thesis using Some ValidateRoot_fails by fastforce
    next
      case None
      then have "validateTrust tm certStore root gun trustPinning w = (Inr ([], pinned), w')"
        using d e b by simp
      then show ?thesis using None ValidateRoot_passes by fastforce
    qed
  }
qed

text \<open>
  A root that carries certificate B and is signed by A and by B is accepted with A
  trusted; under TOFU with an empty store the root signed by B is accepted.
\<close>

theorem ValidateRoot_verifies_both_sets_witness:
  "\<not> isValidationFail (fst (ValidateRoot testTM memCertStore (testRoot [''kB''] [''A'', ''B''])
       ''repo'' (noPins False) [certA])) \<and>
   VerifyRoot testTM (testRoot [''kB''] [''A'', ''B'']) 0 (CertsToKeys testTM [certA]) = None \<and>
   VerifyRoot testTM (testRoot [''kB''] [''A'', ''B'']) 0 (CertsToKeys testTM [certB]) = None \<and>
   \<not> isValidationFail (fst (ValidateRoot testTM memCertStore (testRoot [''kB''] [''B''])
       ''repo'' (noPins True) [])) \<and>
   bootstrapTrust testTM (signedRootOf [''kB'']) ''repo'' (noPins True) [certB] = Inr [certB] \<and>
   VerifyRoot testTM (testRoot [''kB''] [''B'']) 0 (CertsToKeys testTM [certB]) = None"
proof -
  have l: "validRootLeafCerts testTM (signedRootOf [''kB'']) ''repo'' = Inr [certB]"
    by (simp add: certsDefs fixtures)
  have p1: "RootFromSigned testTM (testRoot [''kB''] [''A'', ''B'']) = Inr (signedRootOf [''kB''])"
    by (simp add: testTM_def testRoot_def)
  have g1: "GetCertificatesByCN memCertStore ''repo'' [certA] = (([certA], None), [certA])"
    by (simp add: fixtures)
  have v1: "VerifyRoot testTM (testRoot [''kB''] [''A'', ''B'']) 0 (CertsToKeys testTM [certA]) = None"
    and v2: "VerifyRoot testTM (testRoot [''kB''] [''A'', ''B'']) 0 (CertsToKeys testTM [certB]) = None"
    by (simp_all add: fixtures)
  have c1: "\<not> isValidationFail (fst (ValidateRoot testTM memCertStore (testRoot [''kB''] [''A'', ''B''])
       ''repo'' (noPins False) [certA]))"
    using ValidateRoot_verifies_both_sets [OF p1 l g1, of "noPins False"] v1 v2 by simp
  have p2: "RootFromSigned testTM (testRoot [''kB''] [''B'']) = Inr (signedRootOf [''kB''])"
    by (simp add: testTM_def testRoot_def)
  have g2: "GetCertificatesByCN memCertStore ''repo'' [] = (([], Some ErrNoCertificatesFound), [])"
    by (simp add: fixtures)
  have b: "bootstrapTrust testTM (signedRootOf [''kB'']) ''repo'' (noPins True) [certB] = Inr [certB]"
    by (simp add: bootstrapTrust_def ContainsKeyPrefix_def noPins_def)
  have v3: "VerifyRoot testTM (testRoot [''kB''] [''B'']) 0 (CertsToKeys testTM [certB]) = None"
    by (simp add: fixtures)
  have c2: "\<not> isValidationFail (fst (ValidateRoot testTM memCertStore (testRoot [''kB''] [''B''])
       ''repo'' (noPins True) []))"
    using ValidateRoot_verifies_both_sets [OF p2 l g2, of "noPins True"] b v3 by simp
  show ?thesis using c1 c2 v1 v2 v3 b by simp
qed

text \<open>
  With A trusted, a root that carries certificate B and is validly signed by A alone
  verifies against the stored certificates and is still rejected, because it does not
  verify against its own leaf B.
\<close>

theorem ValidateRoot_old_certs_alone_counterexample:
  "fst (fst (GetCertificatesByCN memCertStore ''repo'' [certA])) = [certA] \<and>
   VerifyRoot testTM (testRoot [''kB''] [''A'']) 0 (CertsToKeys testTM [certA]) = None \<and>
   ValidateRoot testTM memCertStore (testRoot [''kB''] [''A'']) ''repo'' (noPins False) [certA] =
     (Some (ErrValidationFail ''failed to validate integrity of roots''), [], [certA])"
  by (simp add: certsDefs fixtures)

text \<open>
  C2. Once validation has passed with the previously trusted \<open>certsForCN\<close> and the
  accepted \<open>allValidCerts\<close>, in the run of the rotation: an addition that fails, in the
  state the additions before it have left, with an error other than \<^verbatim>\<open>ErrCertExists\<close>
  leaves a line in the log and nothing else; the call returns \<^verbatim>\<open>ErrRootRotationFail\<close>
  exactly when some removal of the run fails, that is, when the removals before it have
  succeeded and it fails in the state they left, the run having started in the state the
  additions left; the call succeeds exactly when no removal of the run fails; the result
  is never an \<^verbatim>\<open>ErrValidationFail\<close>. The certificates that the run removes are
  previously trusted ones whose fingerprint is the fingerprint of no accepted certificate,
  and every such fingerprint is removed.
\<close>

theorem ValidateRoot_rotation_errors:
  assumes "validateTrust tm certStore root gun trustPinning w = (Inr (certsForCN, allValidCerts), w')"
  shows
   "(\<forall>pre cert post e w2.
        allValidCerts = pre @ cert # post \<and>
        AddCert certStore cert (snd (addLoop certStore gun pre w')) = (Some e, w2) \<and>
        e \<noteq> ErrCertExists \<longrightarrow>
        ErrorAdding gun e \<in> set (fst (snd (ValidateRoot tm certStore root gun trustPinning w)))) \<and>
    (fst (ValidateRoot tm certStore root gun trustPinning w) =
       Some (ErrRootRotationFail ''failed to rotate root keys'') \<longleftrightarrow>
     (\<exists>pre certID cert post lines w1.
        certsToRemove tm certsForCN allValidCerts = pre @ (certID, cert) # post \<and>
        deleteLoop certStore pre (snd (addLoop certStore gun allValidCerts w')) = (None, lines, w1) \<and>
        fst (RemoveCert certStore cert w1) \<noteq> None)) \<and>
    (fst (ValidateRoot tm certStore root gun trustPinning w) = None \<longleftrightarrow>
     \<not> (\<exists>pre certID cert post lines w1.
        certsToRemove tm certsForCN allValidCerts = pre @ (certID, cert) # post \<and>
        deleteLoop certStore pre (snd (addLoop certStore gun allValidCerts w')) = (None, lines, w1) \<and>
        fst (RemoveCert certStore cert w1) \<noteq> None)) \<and>
    \<not> isValidationFail (fst (ValidateRoot tm certStore root gun trustPinning w)) \<and>
    (\<forall>certID cert. (certID, cert) \<in> set (certsToRemove tm certsForCN allValidCerts) \<longrightarrow>
        cert \<in> set certsForCN \<and> FingerprintCert tm cert = Inr certID \<and>
        (\<forall>new \<in> set allValidCerts. FingerprintCert tm new \<noteq> Inr certID)) \<and>
    (allValidCerts \<noteq> [] \<longrightarrow>
       fst ` set (certsToRemove tm certsForCN allValidCerts) =
       {certID. (\<exists>cert \<in> set certsForCN. FingerprintCert tm cert = Inr certID) \<and>
          (\<forall>new \<in> set allValidCerts. FingerprintCert tm new \<noteq> Inr certID)})"
proof -
  let ?R = "certsToRemove tm certsForCN allValidCerts"
  let ?wa = "snd (addLoop certStore gun allValidCerts w')"
  let ?rot = "rotateCerts tm certStore gun certsForCN allValidCerts w'"
  let ?fails = "\<exists>pre certID cert post lines w1.
        ?R = pre @ (certID, cert) # post \<and>
        deleteLoop certStore pre ?wa = (None, lines, w1) \<and>
        fst (RemoveCert certStore cert w1) \<noteq> None"
  let ?err = "Some (ErrRootRotationFail ''failed to rotate root keys'')"
  have v: "ValidateRoot tm certStore root gun trustPinning w = ?rot"
    using assms by (simp add: ValidateRoot_def)
  have f: "fst ?rot = fst (deleteLoop certStore ?R ?wa)"
    by (rule rotateCerts_fst)
  have a: "ErrorAdding gun e \<in> set (fst (snd ?rot))"
    if "allValidCerts = pre @ cert # post \<and>
        AddCert certStore cert (snd (addLoop certStore gun pre w')) = (Some e, w2) \<and>
        e \<noteq> ErrCertExists" for pre cert post e w2
  proof -
    have "ErrorAdding gun e \<in> set (fst (addLoop certStore gun (pre @ cert # post) w'))"
      using that addLoop_logs_at [of certStore cert gun pre w' e w2 post] by blast
    then show ?thesis
      using that rotateCerts_log [of certStore gun allValidCerts w' tm certsForCN] by blast
  qed
  have b1: "fst ?rot = ?err" if ?fails
    using that f deleteLoop_any_failure [of certStore _ ?wa] by metis
  have b2: ?fails if "fst ?rot \<noteq> None"
    using that f deleteLoop_failure_split [of certStore ?R ?wa] by simp
  have o: "fst ?rot = None \<or> fst ?rot = ?err"
    unfolding f by (rule deleteLoop_outcome)
  have b: "fst ?rot = ?err \<longleftrightarrow> ?fails"
  proof
    assume "fst ?rot = ?err"
    then have "fst ?rot \<noteq> None" by simp
    then show ?fails by (rule b2)
  next
    assume ?fails
    then show "fst ?rot = ?err" by (rule b1)
  qed
  have c: "fst ?rot = None \<longleftrightarrow> \<not> ?fails"
  proof
    assume "fst ?rot = None"
    then have "fst ?rot \<noteq> ?err" by simp
    then show "\<not> ?fails" using b by simp
  next
    assume "\<not> ?fails"
    then have "fst ?rot \<noteq> ?err" using b by simp
    then show "fst ?rot = None" using o by simp
  qed
  have d: "cert \<in> set certsForCN \<and> FingerprintCert tm cert = Inr certID \<and>
        (\<forall>new \<in> set allValidCerts. FingerprintCert tm new \<noteq> Inr certID)"
    if "(certID, cert) \<in> set ?R" for certID cert
    using certsToRemove_sound [OF that] by (auto simp: newCertIDs_fingerprints)
  have k: "fst ` set ?R =
       {certID. (\<exists>cert \<in> set certsForCN. FingerprintCert tm cert = Inr certID) \<and>
          (\<forall>new \<in> set allValidCerts. FingerprintCert tm new \<noteq> Inr certID)}"
    if "allValidCerts \<noteq> []"
    using certsToRemove_keys [OF that, of tm certsForCN] by (auto simp: newCertIDs_fingerprints)
  show ?thesis
    unfolding v
  proof (intro conjI)
    show "fst ?rot = ?err \<longleftrightarrow> ?fails" by (rule b)
    show "fst ?rot = None \<longleftrightarrow> \<not> ?fails" by (rule c)
    show "\<not> isValidationFail (fst ?rot)" by (rule rotateCerts_not_validation)
  qed (use a d k in blast)+
qed

text \<open>
  With A trusted and B accepted: on the read-only store the refused addition is logged
  and the refused removal fails the rotation; on the full disk the refused addition is
  logged and the call succeeds; on the store in memory, where a removal fails or not
  according to the state, the removal of A succeeds in the state the run has reached.
\<close>

theorem ValidateRoot_rotation_errors_witness:
  "ValidateRoot testTM readOnlyCertStore (testRoot [''kB''] [''A'', ''B'']) ''repo'' (noPins False) [certA] =
     (Some (ErrRootRotationFail ''failed to rotate root keys''),
      [ErrorAdding ''repo'' (ErrOther ''permission denied''), Removing ''A'',
       FailedToRemove ''A'' (ErrOther ''permission denied'')], [certA]) \<and>
   ErrorAdding ''repo'' (ErrOther ''permission denied'') \<in> set (fst (snd
     (ValidateRoot testTM readOnlyCertStore (testRoot [''kB''] [''A'', ''B'']) ''repo'' (noPins False) [certA]))) \<and>
   fst (ValidateRoot testTM readOnlyCertStore (testRoot [''kB''] [''A'', ''B'']) ''repo'' (noPins False) [certA]) =
     Some (ErrRootRotationFail ''failed to rotate root keys'') \<and>
   ErrorAdding ''repo'' (ErrOther ''no space left on device'') \<in> set (fst (snd
     (ValidateRoot testTM fullDiskCertStore (testRoot [''kB''] [''A'', ''B'']) ''repo'' (noPins False) [certA]))) \<and>
   fst (ValidateRoot testTM fullDiskCertStore (testRoot [''kB''] [''A'', ''B'']) ''repo'' (noPins False) [certA]) = None \<and>
   RemoveCert memCertStore certA [] = (Some (ErrOther ''certificate not found''), []) \<and>
   fst (ValidateRoot testTM memCertStore (testRoot [''kB''] [''A'', ''B'']) ''repo'' (noPins False) [certA]) = None"
proof -
  let ?root = "testRoot [''kB''] [''A'', ''B'']"
  have r: "certsToRemove testTM [certA] [certB] = [(''A'', certA)]"
    by (simp add: certsToRemove_def fixtures)
  have s: "[(''A'', certA)] = pre @ (certID, cert) # post \<longleftrightarrow>
      pre = [] \<and> certID = ''A'' \<and> cert = certA \<and> post = []" for pre certID cert post
    by (auto simp: Cons_eq_append_conv)
  have h1: "validateTrust testTM readOnlyCertStore ?root ''repo'' (noPins False) [certA] =
     (Inr ([certA], [certB]), [certA])"
    by (simp add: certsDefs fixtures)
  have h2: "validateTrust testTM fullDiskCertStore ?root ''repo'' (noPins False) [certA] =
     (Inr ([certA], [certB]), [certA])"
    by (simp add: certsDefs fixtures)
  have h3: "validateTrust testTM memCertStore ?root ''repo'' (noPins False) [certA] =
     (Inr ([certA], [certB]), [certA])"
    by (simp add: certsDefs fixtures)
  have rem1: "fst (RemoveCert readOnlyCertStore cert v) = Some (ErrOther ''permission denied'')"
    for cert v
    by (simp add: readOnlyCertStore_def)
  have rem2: "fst (RemoveCert fullDiskCertStore cert v) = None" for cert v
    by (simp add: fullDiskCertStore_def)
  have wa3: "snd (addLoop memCertStore ''repo'' [certB] [certA]) = [certA, certB]"
    by (simp add: fixtures)
  have rem3: "fst (RemoveCert memCertStore certA [certA, certB]) = None"
    by (simp add: fixtures)
  note t1 = ValidateRoot_rotation_errors [OF h1]
  note t2 = ValidateRoot_rotation_errors [OF h2]
  note t3 = ValidateRoot_rotation_errors [OF h3]
  have a1: "ErrorAdding ''repo'' (ErrOther ''permission denied'') \<in> set (fst (snd
     (ValidateRoot testTM readOnlyCertStore ?root ''repo'' (noPins False) [certA])))"
    using t1 [THEN conjunct1, rule_format,
        of "[]" certB "[]" "ErrOther ''permission denied''" "[certA]"]
    by (simp add: readOnlyCertStore_def)
  have b1: "fst (ValidateRoot testTM readOnlyCertStore ?root ''repo'' (noPins False) [certA]) =
     Some (ErrRootRotationFail ''failed to rotate root keys'')"
    using t1 [THEN conjunct2, THEN conjunct1]
    by (simp add: r s rem1)
  have a2: "ErrorAdding ''repo'' (ErrOther ''no space left on device'') \<in> set (fst (snd
     (ValidateRoot testTM fullDiskCertStore ?root ''repo'' (noPins False) [certA])))"
    using t2 [THEN conjunct1, rule_format,
        of "[]" certB "[]" "ErrOther ''no space left on device''" "[certA]"]
    by (simp add: fullDiskCertStore_def)
  have b2: "fst (ValidateRoot testTM fullDiskCertStore ?root ''repo'' (noPins False) [certA]) = None"
    using t2 [THEN conjunct2, THEN conjunct2, THEN conjunct1]
    by (simp add: r s rem2)
  have b3: "fst (ValidateRoot testTM memCertStore ?root ''repo'' (noPins False) [certA]) = None"
    using t3 [THEN conjunct2, THEN conjunct2, THEN conjunct1]
    by (simp add: r s wa3 rem3 del: addLoop.simps)
  have n: "RemoveCert memCertStore certA [] = (Some (ErrOther ''certificate not found''), [])"
    by (simp add: memCertStore_def)
  have full: "ValidateRoot testTM readOnlyCertStore ?root ''repo'' (noPins False) [certA] =
     (Some (ErrRootRotationFail ''failed to rotate root keys''),
      [ErrorAdding ''repo'' (ErrOther ''permission denied''), Removing ''A'',
       FailedToRemove ''A'' (ErrOther ''permission denied'')], [certA])"
    by (simp add: certsDefs fixtures)
  show ?thesis using full a1 b1 a2 b2 b3 n by simp
qed

text \<open>
  C3. For the timestamp key, from the source, and for the snapshot key, from the
  specification: if the first \<^verbatim>\<open>GetKey\<close> finds a key, that key is returned, in the state
  that \<^verbatim>\<open>GetKey\<close> left, and the same holds whatever \<^verbatim>\<open>Create\<close> and \<^verbatim>\<open>SetKey\<close> are:
  neither is called. If the first \<^verbatim>\<open>GetKey\<close> reports \<^verbatim>\<open>ErrNoKey\<close>, the key is created
  and \<^verbatim>\<open>SetKey\<close> fails with \<^verbatim>\<open>ErrKeyExists\<close>, then the result is the result of the
  second \<^verbatim>\<open>GetKey\<close>: the key it finds, or its own error, never the conflict.
\<close>

theorem GetOrCreateKey_found_or_lost_race:
  "(\<forall>alg pub w1.
      GetKey store gun CanonicalTimestampRole w = (Inr (alg, pub), w1) \<longrightarrow>
      GetOrCreateTimestampKey gun store crypto createAlgorithm w = (Inr (NewPublicKey alg pub), w1) \<and>
      (\<forall>create setKey.
         GetOrCreateTimestampKey gun (store\<lparr>SetKey := setKey\<rparr>) (crypto\<lparr>Create := create\<rparr>)
           createAlgorithm w = (Inr (NewPublicKey alg pub), w1))) \<and>
   (\<forall>w1 key w2 w3 r w4.
      GetKey store gun CanonicalTimestampRole w = (Inl ErrNoKey, w1) \<and>
      Create crypto ''timestamp'' gun createAlgorithm w1 = (Inr key, w2) \<and>
      SetKey store gun CanonicalTimestampRole (Algorithm key) (Public key) w2 =
        (Some ErrKeyExists, w3) \<and>
      GetKey store gun CanonicalTimestampRole w3 = (r, w4) \<longrightarrow>
      GetOrCreateTimestampKey gun store crypto createAlgorithm w =
        (case r of Inl err \<Rightarrow> Inl err | Inr (alg, pub) \<Rightarrow> Inr (NewPublicKey alg pub), w4)) \<and>
   (\<forall>alg pub w1.
      GetKey store gun CanonicalSnapshotRole w = (Inr (alg, pub), w1) \<longrightarrow>
      GetOrCreateSnapshotKey gun store crypto createAlgorithm w = (Inr (NewPublicKey alg pub), w1) \<and>
      (\<forall>create setKey.
         GetOrCreateSnapshotKey gun (store\<lparr>SetKey := setKey\<rparr>) (crypto\<lparr>Create := create\<rparr>)
           createAlgorithm w = (Inr (NewPublicKey alg pub), w1))) \<and>
   (\<forall>w1 key w2 w3 r w4.
      GetKey store gun CanonicalSnapshotRole w = (Inl ErrNoKey, w1) \<and>
      Create crypto CanonicalSnapshotRole gun createAlgorithm w1 = (Inr key, w2) \<and>
      SetKey store gun CanonicalSnapshotRole (Algorithm key) (Public key) w2 =
        (Some ErrKeyExists, w3) \<and>
      GetKey store gun CanonicalSnapshotRole w3 = (r, w4) \<longrightarrow>
      GetOrCreateSnapshotKey gun store crypto createAlgorithm w =
        (case r of Inl err \<Rightarrow> Inl err | Inr (alg, pub) \<Rightarrow> Inr (NewPublicKey alg pub), w4))"
proof (intro conjI)
  show "\<forall>alg pub w1.
      GetKey store gun CanonicalTimestampRole w = (Inr (alg, pub), w1) \<longrightarrow>
      GetOrCreateTimestampKey gun store crypto createAlgorithm w = (Inr (NewPublicKey alg pub), w1) \<and>
      (\<forall>create setKey.
         GetOrCreateTimestampKey gun (store\<lparr>SetKey := setKey\<rparr>) (crypto\<lparr>Create := create\<rparr>)
           createAlgorithm w = (Inr (NewPublicKey alg pub), w1))"
    by (simp add: GetOrCreateTimestampKey_def)
  show "\<forall>w1 key w2 w3 r w4.
      GetKey store gun CanonicalTimestampRole w = (Inl ErrNoKey, w1) \<and>
      Create crypto ''timestamp'' gun createAlgorithm w1 = (Inr key, w2) \<and>
      SetKey store gun CanonicalTimestampRole (Algorithm key) (Public key) w2 =
        (Some ErrKeyExists, w3) \<and>
      GetKey store gun CanonicalTimestampRole w3 = (r, w4) \<longrightarrow>
      GetOrCreateTimestampKey gun store crypto createAlgorithm w =
        (case r of Inl err \<Rightarrow> Inl err | Inr (alg, pub) \<Rightarrow> Inr (NewPublicKey alg pub), w4)"
    by (auto simp: GetOrCreateTimestampKey_def split: sum.splits)
  show "\<forall>alg pub w1.
      GetKey store gun CanonicalSnapshotRole w = (Inr (alg, pub), w1) \<longrightarrow>
      GetOrCreateSnapshotKey gun store crypto createAlgorithm w = (Inr (NewPublicKey alg pub), w1) \<and>
      (\<forall>create setKey.
         GetOrCreateSnapshotKey gun (store\<lparr>SetKey := setKey\<rparr>) (crypto\<lparr>Create := create\<rparr>)
           createAlgorithm w = (Inr (NewPublicKey alg pub), w1))"
    by (simp add: GetOrCreateSnapshotKey_def)
  show "\<forall>w1 key w2 w3 r w4.
      GetKey store gun CanonicalSnapshotRole w = (Inl ErrNoKey, w1) \<and>
      Create crypto CanonicalSnapshotRole gun createAlgorithm w1 = (Inr key, w2) \<and>
      SetKey store gun CanonicalSnapshotRole (Algorithm key) (Public key) w2 =
        (Some ErrKeyExists, w3) \<and>
      GetKey store gun CanonicalSnapshotRole w3 = (r, w4) \<longrightarrow>
      GetOrCreateSnapshotKey gun store crypto createAlgorithm w =
        (case r of Inl err \<Rightarrow> Inl err | Inr (alg, pub) \<Rightarrow> Inr (NewPublicKey alg pub), w4)"
    by (auto simp: GetOrCreateSnapshotKey_def split: sum.splits)
qed

text \<open>
  The run of \<^verbatim>\<open>TestGetSnapshotKeyExistsOnSet\<close>, on the snapshot key and on the timestamp
  key: the first call loses the race and returns the winner's key, the second call finds
  it at once.
\<close>

theorem GetOrCreateKey_found_or_lost_race_witness:
  "GetOrCreateTimestampKey ''gun'' keyStore keyStoreCrypto ''ed25519'' raceWorld =
     (Inr winnerKey, raceWorld\<lparr>ksGetCalled := True, ksMade := 1\<rparr>) \<and>
   GetOrCreateTimestampKey ''gun'' keyStore keyStoreCrypto ''ed25519''
       (raceWorld\<lparr>ksGetCalled := True, ksMade := 1\<rparr>) =
     (Inr winnerKey, raceWorld\<lparr>ksGetCalled := True, ksMade := 1\<rparr>) \<and>
   GetOrCreateSnapshotKey ''gun'' keyStore keyStoreCrypto ''ed25519'' raceWorld =
     (Inr winnerKey, raceWorld\<lparr>ksGetCalled := True, ksMade := 1\<rparr>) \<and>
   GetOrCreateSnapshotKey ''gun'' keyStore keyStoreCrypto ''ed25519''
       (raceWorld\<lparr>ksGetCalled := True, ksMade := 1\<rparr>) =
     (Inr winnerKey, raceWorld\<lparr>ksGetCalled := True, ksMade := 1\<rparr>)"
proof -
  let ?w1 = "raceWorld\<lparr>ksGetCalled := True\<rparr>"
  let ?w2 = "raceWorld\<lparr>ksGetCalled := True, ksMade := 1\<rparr>"
  let ?key = "\<lparr>Algorithm = ''ed25519'', Public = ''x''\<rparr>"
  have g1: "GetKey keyStore ''gun'' role raceWorld = (Inl ErrNoKey, ?w1)" for role
    by (simp add: keyStore_def raceWorld_def)
  have c: "Create keyStoreCrypto role ''gun'' ''ed25519'' ?w1 = (Inr ?key, ?w2)" for role
    by (simp add: keyStoreCrypto_def raceWorld_def)
  have s: "SetKey keyStore ''gun'' role (Algorithm ?key) (Public ?key) ?w2 =
      (Some ErrKeyExists, ?w2)" for role
    by (simp add: keyStore_def)
  have g2: "GetKey keyStore ''gun'' role ?w2 = (Inr (''ed25519'', ''winner''), ?w2)" for role
    by (simp add: keyStore_def raceWorld_def winnerKey_def)
  have k: "NewPublicKey ''ed25519'' ''winner'' = winnerKey"
    by (simp add: NewPublicKey_def winnerKey_def)
  note t1 = GetOrCreateKey_found_or_lost_race [of keyStore "''gun''" raceWorld keyStoreCrypto "''ed25519''"]
  note t2 = GetOrCreateKey_found_or_lost_race [of keyStore "''gun''" ?w2 keyStoreCrypto "''ed25519''"]
  have r1: "GetOrCreateTimestampKey ''gun'' keyStore keyStoreCrypto ''ed25519'' raceWorld =
      (Inr winnerKey, ?w2)"
    using t1 [THEN conjunct2, THEN conjunct1, rule_format,
        of ?w1 ?key ?w2 ?w2 "Inr (''ed25519'', ''winner'')" ?w2]
      g1 c s g2 k by simp
  have r2: "GetOrCreateTimestampKey ''gun'' keyStore keyStoreCrypto ''ed25519'' ?w2 = (Inr winnerKey, ?w2)"
    using t2 [THEN conjunct1, rule_format, of "''ed25519''" "''winner''" ?w2] g2 k by simp
  have r3: "GetOrCreateSnapshotKey ''gun'' keyStore keyStoreCrypto ''ed25519'' raceWorld =
      (Inr winnerKey, ?w2)"
    using t1 [THEN conjunct2, THEN conjunct2, THEN conjunct2, rule_format,
        of ?w1 ?key ?w2 ?w2 "Inr (''ed25519'', ''winner'')" ?w2]
      g1 c s g2 k by simp
  have r4: "GetOrCreateSnapshotKey ''gun'' keyStore keyStoreCrypto ''ed25519'' ?w2 = (Inr winnerKey, ?w2)"
    using t2 [THEN conjunct2, THEN conjunct2, THEN conjunct1, rule_format,
        of "''ed25519''" "''winner''" ?w2] g2 k by simp
  show ?thesis using r1 r2 r3 r4 by simp
qed

text \<open>
  C4. Let the stored timestamp be read and decoded and the snapshot be obtained. If the
  timestamp is fresh (its expiry has not passed and its hash for the snapshot role matches
  the snapshot), the stored bytes are returned with their modification time and nothing is
  written. If it is not fresh, and a new timestamp is created and stored, the new bytes
  are returned with the current time. Provided that new bytes differ from the stored
  ones, the stored bytes are returned exactly when the timestamp is fresh.
\<close>

theorem GetOrCreateTimestamp_fresh_iff:
  assumes "GetCurrent store gun CanonicalTimestampRole w = (Inr (lastModified, timestampJSON), w1)"
      and "UnmarshalTimestamp t timestampJSON = Inr prev"
      and "GetOrCreateSnapshot t gun store crypto w1 = (Inr (m, snapshot), w2)"
  shows "(fresh t prev snapshot \<longrightarrow>
            GetOrCreateTimestamp t gun store crypto w = (Inr (lastModified, timestampJSON), w2)) \<and>
         (\<not> fresh t prev snapshot \<longrightarrow>
            (\<forall>update w3 w4.
               createTimestamp t gun (Some prev) snapshot store crypto w2 = (Inr update, w3) \<and>
               UpdateCurrent store gun update w3 = (None, w4) \<longrightarrow>
               GetOrCreateTimestamp t gun store crypto w = (Inr (TimeNow t, Data update), w4))) \<and>
         ((\<forall>update w3.
             createTimestamp t gun (Some prev) snapshot store crypto w2 = (Inr update, w3) \<longrightarrow>
             Data update \<noteq> timestampJSON) \<longrightarrow>
          ((\<exists>modified. fst (GetOrCreateTimestamp t gun store crypto w) = Inr (modified, timestampJSON))
             \<longleftrightarrow> fresh t prev snapshot))"
  using assms
  by (auto simp: GetOrCreateTimestamp_def fresh_def timestampExpired_def snapshotExpired_def
           split: sum.splits prod.splits option.splits)

text \<open>
  A fresh timestamp is returned as stored; a timestamp whose snapshot has changed, and an
  expired one, are replaced by version 2.
\<close>

theorem GetOrCreateTimestamp_fresh_iff_witness:
  "GetOrCreateTimestamp testTuf ''gun'' memMetaStore memCrypto
       (memWorld [(''root'', ''root1''), (''snapshot'', ''snap1''), (''timestamp'', ''ts1'')]) =
     (Inr (900, ''ts1''),
      memWorld [(''root'', ''root1''), (''snapshot'', ''snap1''), (''timestamp'', ''ts1'')]) \<and>
   GetOrCreateTimestamp testTuf ''gun'' memMetaStore memCrypto
       (memWorld [(''root'', ''root1''), (''snapshot'', ''snap2''), (''timestamp'', ''ts1'')]) =
     (Inr (1000, ''timestamp of snap2''),
      (memWorld [(''root'', ''root1''), (''snapshot'', ''snap2''), (''timestamp'', ''ts1'')])
        \<lparr>memMeta := [((''gun'', ''root''), (1, ''root1'')), ((''gun'', ''snapshot''), (1, ''snap2'')),
                     ((''gun'', ''timestamp''), (2, ''timestamp of snap2''))]\<rparr>) \<and>
   GetOrCreateTimestamp testTuf ''gun'' memMetaStore memCrypto
       (memWorld [(''root'', ''root1''), (''snapshot'', ''snap1''), (''timestamp'', ''tsOld'')]) =
     (Inr (1000, ''timestamp of snap1''),
      (memWorld [(''root'', ''root1''), (''snapshot'', ''snap1''), (''timestamp'', ''tsOld'')])
        \<lparr>memMeta := [((''gun'', ''root''), (1, ''root1'')), ((''gun'', ''snapshot''), (1, ''snap1'')),
                     ((''gun'', ''timestamp''), (2, ''timestamp of snap1''))]\<rparr>)"
proof -
  let ?ts1 = "\<lparr>Expires = 1500, TsVersion = 1,
      Meta = map_of [(''snapshot'', [(''sha256'', ''sha256:snap1'')])]\<rparr>"
  let ?tsOld = "\<lparr>Expires = 500, TsVersion = 1,
      Meta = map_of [(''snapshot'', [(''sha256'', ''sha256:snap1'')])]\<rparr>"
  let ?wa = "memWorld [(''root'', ''root1''), (''snapshot'', ''snap1''), (''timestamp'', ''ts1'')]"
  let ?wb = "memWorld [(''root'', ''root1''), (''snapshot'', ''snap2''), (''timestamp'', ''ts1'')]"
  let ?wc = "memWorld [(''root'', ''root1''), (''snapshot'', ''snap1''), (''timestamp'', ''tsOld'')]"
  have u1: "UnmarshalTimestamp testTuf ''ts1'' = Inr ?ts1"
    and u2: "UnmarshalTimestamp testTuf ''tsOld'' = Inr ?tsOld"
    by (simp_all add: testTuf_def testTimestamps_def)
  have ga: "GetCurrent memMetaStore ''gun'' CanonicalTimestampRole ?wa = (Inr (900, ''ts1''), ?wa)"
    and gb: "GetCurrent memMetaStore ''gun'' CanonicalTimestampRole ?wb = (Inr (900, ''ts1''), ?wb)"
    and gc: "GetCurrent memMetaStore ''gun'' CanonicalTimestampRole ?wc = (Inr (900, ''tsOld''), ?wc)"
    by (simp_all add: memMetaStore_def memWorld_def CanonicalTimestampRole_def)
  have sa: "GetOrCreateSnapshot testTuf ''gun'' memMetaStore memCrypto ?wa = (Inr (900, ''snap1''), ?wa)"
    and sb: "GetOrCreateSnapshot testTuf ''gun'' memMetaStore memCrypto ?wb = (Inr (900, ''snap2''), ?wb)"
    and sc: "GetOrCreateSnapshot testTuf ''gun'' memMetaStore memCrypto ?wc = (Inr (900, ''snap1''), ?wc)"
    by (simp_all add: testTuf_def memMetaStore_def memWorld_def CanonicalSnapshotRole_def)
  have fa: "fresh testTuf ?ts1 ''snap1''" and fb: "\<not> fresh testTuf ?ts1 ''snap2''"
    and fc: "\<not> fresh testTuf ?tsOld ''snap1''"
    by (simp_all add: fresh_def testTuf_def CanonicalSnapshotRole_def)
  have cb: "createTimestamp testTuf ''gun'' (Some ?ts1) ''snap2'' memMetaStore memCrypto ?wb =
      (Inr \<lparr>Role = ''timestamp'', Version = 2, Data = ''timestamp of snap2''\<rparr>, ?wb)"
    by (simp add: tsDefs tsFixtures)
  have cc: "createTimestamp testTuf ''gun'' (Some ?tsOld) ''snap1'' memMetaStore memCrypto ?wc =
      (Inr \<lparr>Role = ''timestamp'', Version = 2, Data = ''timestamp of snap1''\<rparr>, ?wc)"
    by (simp add: tsDefs tsFixtures)
  have pb: "UpdateCurrent memMetaStore ''gun''
      \<lparr>Role = ''timestamp'', Version = 2, Data = ''timestamp of snap2''\<rparr> ?wb =
      (None, ?wb\<lparr>memMeta := [((''gun'', ''root''), (1, ''root1'')), ((''gun'', ''snapshot''), (1, ''snap2'')),
                     ((''gun'', ''timestamp''), (2, ''timestamp of snap2''))]\<rparr>)"
    by (simp add: memMetaStore_def memWorld_def)
  have pc: "UpdateCurrent memMetaStore ''gun''
      \<lparr>Role = ''timestamp'', Version = 2, Data = ''timestamp of snap1''\<rparr> ?wc =
      (None, ?wc\<lparr>memMeta := [((''gun'', ''root''), (1, ''root1'')), ((''gun'', ''snapshot''), (1, ''snap1'')),
                     ((''gun'', ''timestamp''), (2, ''timestamp of snap1''))]\<rparr>)"
    by (simp add: memMetaStore_def memWorld_def)
  have ra: "GetOrCreateTimestamp testTuf ''gun'' memMetaStore memCrypto ?wa = (Inr (900, ''ts1''), ?wa)"
    using GetOrCreateTimestamp_fresh_iff [OF ga u1 sa, THEN conjunct1] fa by simp
  have rb: "GetOrCreateTimestamp testTuf ''gun'' memMetaStore memCrypto ?wb =
      (Inr (1000, ''timestamp of snap2''),
       ?wb\<lparr>memMeta := [((''gun'', ''root''), (1, ''root1'')), ((''gun'', ''snapshot''), (1, ''snap2'')),
                     ((''gun'', ''timestamp''), (2, ''timestamp of snap2''))]\<rparr>)"
    using GetOrCreateTimestamp_fresh_iff [OF gb u1 sb, THEN conjunct2, THEN conjunct1, rule_format, OF fb,
        OF conjI, OF cb pb]
    by (simp add: testTuf_def)
  have rc: "GetOrCreateTimestamp testTuf ''gun'' memMetaStore memCrypto ?wc =
      (Inr (1000, ''timestamp of snap1''),
       ?wc\<lparr>memMeta := [((''gun'', ''root''), (1, ''root1'')), ((''gun'', ''snapshot''), (1, ''snap1'')),
                     ((''gun'', ''timestamp''), (2, ''timestamp of snap1''))]\<rparr>)"
    using GetOrCreateTimestamp_fresh_iff [OF gc u2 sc, THEN conjunct2, THEN conjunct1, rule_format, OF fc,
        OF conjI, OF cc pc]
    by (simp add: testTuf_def)
  show ?thesis using ra rb rc by simp
qed

text \<open>
  C5, as the code has it. If the root decodes and none of its leaf certificates has the
  GUN as Common Name, is unexpired and avoids SHA-1, then \<open>ValidateRoot\<close> returns
  \<^verbatim>\<open>ErrValidationFail\<close> and leaves the store alone.
\<close>

theorem ValidateRoot_no_valid_leaf:
  assumes "RootFromSigned tm root = Inr signedRoot"
      and "\<forall>(leafID, cert) \<in> set (fst (parseAllCerts tm signedRoot)).
             \<not> (CommonName cert = gun \<and> Now tm \<le> NotAfter cert \<and> \<not> usesSHA1 cert)"
  shows "ValidateRoot tm certStore root gun trustPinning w =
           (Some (ErrValidationFail ''unable to retrieve valid leaf certificates''), [], w)"
proof -
  have "validLeafLoop tm gun (map snd (fst (parseAllCerts tm signedRoot))) = []"
    using assms(2) by (auto simp: validLeafLoop_filter filter_empty_conv)
  then show ?thesis
    using assms(1) by (simp add: ValidateRoot_def validateTrust_def validRootLeafCerts_def)
qed

text \<open>A root whose leaves are expired, signed with SHA-1, or named for another GUN.\<close>

theorem ValidateRoot_no_valid_leaf_witness:
  "RootFromSigned testTM (testRoot [''kOld'', ''kSHA1'', ''kOther''] [''Old'']) =
     Inr (signedRootOf [''kOld'', ''kSHA1'', ''kOther'']) \<and>
   map snd (fst (parseAllCerts testTM (signedRootOf [''kOld'', ''kSHA1'', ''kOther'']))) =
     [certOld, certSHA1, certOther] \<and>
   ValidateRoot testTM memCertStore (testRoot [''kOld'', ''kSHA1'', ''kOther''] [''Old'']) ''repo''
       (noPins True) [] =
     (Some (ErrValidationFail ''unable to retrieve valid leaf certificates''), [], [])"
proof -
  have p: "RootFromSigned testTM (testRoot [''kOld'', ''kSHA1'', ''kOther''] [''Old'']) =
     Inr (signedRootOf [''kOld'', ''kSHA1'', ''kOther''])"
    by (simp add: testTM_def testRoot_def)
  have l: "fst (parseAllCerts testTM (signedRootOf [''kOld'', ''kSHA1'', ''kOther''])) =
     [(''Old'', certOld), (''Weak'', certSHA1), (''Other'', certOther)]"
    by (simp add: certsDefs fixtures)
  have h: "\<forall>(leafID, cert) \<in> set (fst (parseAllCerts testTM (signedRootOf [''kOld'', ''kSHA1'', ''kOther'']))).
     \<not> (CommonName cert = ''repo'' \<and> Now testTM \<le> NotAfter cert \<and> \<not> usesSHA1 cert)"
    unfolding l by (simp add: fixtures usesSHA1_def)
  show ?thesis
    using ValidateRoot_no_valid_leaf [OF p h, of memCertStore "noPins True" "[]"] p l by simp
qed

text \<open>
  A root that does not decode has no valid leaf certificate, and \<open>ValidateRoot\<close> returns
  the decoding error, which is not an \<^verbatim>\<open>ErrValidationFail\<close>.
\<close>

theorem ValidateRoot_undecodable_root_counterexample:
  "RootFromSigned testTM undecodableRoot = Inl (ErrOther ''unexpected end of JSON input'') \<and>
   ValidateRoot testTM memCertStore undecodableRoot ''repo'' (noPins True) [] =
     (Some (ErrOther ''unexpected end of JSON input''), [], []) \<and>
   \<not> isValidationFail (fst (ValidateRoot testTM memCertStore undecodableRoot ''repo'' (noPins True) []))"
  by (simp add: certsDefs fixtures isValidationFail_def)

text \<open>
  C6, as the code has it. If the root decodes, the store holds no certificate for the
  GUN, \<^verbatim>\<open>Certs\<close> has no entry for the GUN, no key of \<^verbatim>\<open>CA\<close> is a prefix of the GUN and
  TOFU is off, then \<open>ValidateRoot\<close> returns an \<^verbatim>\<open>ErrValidationFail\<close> and rotates
  nothing, whatever \<^verbatim>\<open>VerifyRoot\<close> would say of the signatures.
\<close>

theorem ValidateRoot_no_bootstrap:
  assumes "RootFromSigned tm root = Inr signedRoot"
      and "fst (fst (GetCertificatesByCN certStore gun w)) = []"
      and "Certs trustPinning gun = None"
      and "\<not> ContainsKeyPrefix (CA trustPinning) gun"
      and "\<not> TOFU trustPinning"
  shows "isValidationFail (fst (ValidateRoot tm certStore root gun trustPinning w)) \<and>
         fst (snd (ValidateRoot tm certStore root gun trustPinning w)) = []"
proof -
  obtain err w' where g: "GetCertificatesByCN certStore gun w = (([], err), w')"
    using assms(2) by (cases "GetCertificatesByCN certStore gun w") auto
  have b: "\<And>leaves. bootstrapTrust tm signedRoot gun trustPinning leaves =
      Inl (ErrValidationFail ''could not bootstrap trust without trust_pinning configuration'')"
    using assms(3-5) by (simp add: bootstrapTrust_def)
  have "\<exists>reason. validateTrust tm certStore root gun trustPinning w =
      (Inl (ErrValidationFail reason), if validRootLeafCerts tm signedRoot gun = Inr (projr (validRootLeafCerts tm signedRoot gun)) then w' else w)"
  proof (cases "validRootLeafCerts tm signedRoot gun")
    case (Inl e)
    then show ?thesis using assms(1) by (simp add: validateTrust_def)
  next
    case (Inr leaves)
    then show ?thesis using assms(1) g b by (simp add: validateTrust_def)
  qed
  then show ?thesis by (auto simp: ValidateRoot_def isValidationFail_def)
qed

text \<open>A root with a valid leaf and a valid signature by it, refused for want of a pin.\<close>

theorem ValidateRoot_no_bootstrap_witness:
  "VerifyRoot testTM (testRoot [''kA''] [''A'']) 0 (CertsToKeys testTM [certA]) = None \<and>
   isValidationFail (fst (ValidateRoot testTM memCertStore (testRoot [''kA''] [''A'']) ''repo''
     (noPins False) [certOther])) \<and>
   ValidateRoot testTM memCertStore (testRoot [''kA''] [''A'']) ''repo'' (noPins False) [certOther] =
     (Some (ErrValidationFail ''could not bootstrap trust without trust_pinning configuration''),
      [], [certOther])"
proof -
  have p: "RootFromSigned testTM (testRoot [''kA''] [''A'']) = Inr (signedRootOf [''kA''])"
    by (simp add: testTM_def testRoot_def)
  have g: "fst (fst (GetCertificatesByCN memCertStore ''repo'' [certOther])) = []"
    by (simp add: fixtures)
  have c: "Certs (noPins False) ''repo'' = None" and k: "\<not> ContainsKeyPrefix (CA (noPins False)) ''repo''"
    and t: "\<not> TOFU (noPins False)"
    by (simp_all add: noPins_def ContainsKeyPrefix_def)
  have "ValidateRoot testTM memCertStore (testRoot [''kA''] [''A'']) ''repo'' (noPins False) [certOther] =
     (Some (ErrValidationFail ''could not bootstrap trust without trust_pinning configuration''),
      [], [certOther])"
    by (simp add: certsDefs fixtures)
  moreover have "VerifyRoot testTM (testRoot [''kA''] [''A'']) 0 (CertsToKeys testTM [certA]) = None"
    by (simp add: fixtures)
  ultimately show ?thesis
    using ValidateRoot_no_bootstrap [OF p g c k t] by simp
qed

text \<open>
  Under the same configuration a root that does not decode is refused with the decoding
  error, which is not an \<^verbatim>\<open>ErrValidationFail\<close>.
\<close>

theorem ValidateRoot_no_bootstrap_undecodable_counterexample:
  "fst (fst (GetCertificatesByCN memCertStore ''repo'' [])) = [] \<and>
   Certs (noPins False) ''repo'' = None \<and>
   \<not> ContainsKeyPrefix (CA (noPins False)) ''repo'' \<and>
   \<not> TOFU (noPins False) \<and>
   fst (ValidateRoot testTM memCertStore undecodableRoot ''repo'' (noPins False) []) =
     Some (ErrOther ''unexpected end of JSON input'') \<and>
   \<not> isValidationFail (fst (ValidateRoot testTM memCertStore undecodableRoot ''repo'' (noPins False) []))"
  by (simp add: certsDefs fixtures isValidationFail_def)

text \<open>
  C7, as the code has it. On the CA path, split the entries at any point of the visit:
  the entries visited so far have narrowed the candidates to those whose chain verifies
  against each matching CA among them, the remaining entries narrow that set further,
  and the set finally retained is made of the candidates whose chain verifies against
  every matching CA. No match overrides an earlier one.
\<close>

theorem bootstrapTrust_CA_intersection:
  assumes "Certs trustPinning gun = None"
      and "ContainsKeyPrefix (CA trustPinning) gun"
      and "CA trustPinning = cas @ cas'"
      and "bootstrapTrust tm signedRoot gun trustPinning leaves = Inr retained"
  shows "retained = filter (verifiesUnderAll tm signedRoot gun (CA trustPinning)) leaves \<and>
         (\<exists>narrowed. pinCALoop tm signedRoot gun cas leaves = Inr narrowed \<and>
            narrowed = filter (verifiesUnderAll tm signedRoot gun cas) leaves \<and>
            pinCALoop tm signedRoot gun cas' narrowed = Inr retained \<and>
            set retained \<subseteq> set narrowed \<and> set narrowed \<subseteq> set leaves)"
proof -
  have ne: "CA trustPinning \<noteq> []" using assms(2) by (auto simp: ContainsKeyPrefix_def)
  have p: "pinCALoop tm signedRoot gun (cas @ cas') leaves = Inr retained"
    using assms ne by (simp add: bootstrapTrust_def)
  then obtain narrowed where n: "pinCALoop tm signedRoot gun cas leaves = Inr narrowed"
    and r: "pinCALoop tm signedRoot gun cas' narrowed = Inr retained"
    by (auto simp: pinCALoop_append split: sum.splits)
  have "retained = filter (verifiesUnderAll tm signedRoot gun cas') narrowed"
    using r by (rule pinCALoop_filter)
  moreover have "narrowed = filter (verifiesUnderAll tm signedRoot gun cas) leaves"
    using n by (rule pinCALoop_filter)
  moreover have "retained = filter (verifiesUnderAll tm signedRoot gun (CA trustPinning)) leaves"
    using p assms(3) pinCALoop_filter by metis
  ultimately show ?thesis using n r by auto
qed

text \<open>
  Two CAs match the GUN; A is issued by the first, B by the second, AB by both. The
  first match keeps A and AB, the second keeps AB of these.
\<close>

theorem bootstrapTrust_CA_intersection_witness:
  "bootstrapTrust testTM (signedRootOf [''kA'', ''kB'', ''kAB'']) ''repo'' twoCAs [certA, certB, certAB] =
     Inr [certAB] \<and>
   [certAB] = filter (verifiesUnderAll testTM (signedRootOf [''kA'', ''kB'', ''kAB'']) ''repo'' (CA twoCAs))
     [certA, certB, certAB] \<and>
   pinCALoop testTM (signedRootOf [''kA'', ''kB'', ''kAB'']) ''repo'' [(''r'', ''ca1.pem'')]
     [certA, certB, certAB] = Inr [certA, certAB]"
proof -
  let ?sr = "signedRootOf [''kA'', ''kB'', ''kAB'']"
  have c: "Certs twoCAs ''repo'' = None" and k: "ContainsKeyPrefix (CA twoCAs) ''repo''"
    and s: "CA twoCAs = [(''r'', ''ca1.pem'')] @ [(''re'', ''ca2.pem'')]"
    by (simp_all add: twoCAs_def ContainsKeyPrefix_def)
  have b: "bootstrapTrust testTM ?sr ''repo'' twoCAs [certA, certB, certAB] = Inr [certAB]"
    by (simp add: certsDefs fixtures)
  have n: "pinCALoop testTM ?sr ''repo'' [(''r'', ''ca1.pem'')] [certA, certB, certAB] = Inr [certA, certAB]"
    by (simp add: certsDefs fixtures)
  show ?thesis
    using bootstrapTrust_CA_intersection [OF c k s b] b n by simp
qed

text \<open>
  In the same run the last matching CA is the second, and the candidates whose chain
  verifies against it are B and AB; the retained set is AB alone.
\<close>

theorem bootstrapTrust_CA_last_match_counterexample:
  "CA twoCAs = [(''r'', ''ca1.pem''), (''re'', ''ca2.pem'')] \<and>
   LoadCertFromFile testTM ''ca2.pem'' = Inr (authority ''CA2'') \<and>
   validCertsForCA testTM (signedRootOf [''kA'', ''kB'', ''kAB'']) (authority ''CA2'')
     [certA, certB, certAB] = [certB, certAB] \<and>
   bootstrapTrust testTM (signedRootOf [''kA'', ''kB'', ''kAB'']) ''repo'' twoCAs
     [certA, certB, certAB] = Inr [certAB]"
  by (simp add: certsDefs fixtures)

text \<open>
  C8, as the code has it. When the store has no timestamp for the GUN, or fails to read
  it, \<open>GetOrCreateTimestamp\<close> returns the store's error in the state the read left:
  nothing is created. And whatever the store holds, the result does not depend on the
  repository's \<^verbatim>\<open>InitTimestamp\<close>: the path of \<open>NewTimestampUpdate\<close> without a previous
  timestamp is never taken from here.
\<close>

theorem GetOrCreateTimestamp_not_found:
  "(\<forall>err w1. GetCurrent store gun CanonicalTimestampRole w = (Inl err, w1) \<longrightarrow>
      GetOrCreateTimestamp t gun store crypto w = (Inl err, w1)) \<and>
   (\<forall>init. GetOrCreateTimestamp (t\<lparr>InitTimestamp := init\<rparr>) gun store crypto w =
      GetOrCreateTimestamp t gun store crypto w)"
  by (simp add: GetOrCreateTimestamp_def createTimestamp_prev timestampExpired_def
        snapshotExpired_def Let_def cong: sum.case_cong prod.case_cong option.case_cong if_cong)

text \<open>An empty store.\<close>

theorem GetOrCreateTimestamp_not_found_witness:
  "GetOrCreateTimestamp testTuf ''gun'' memMetaStore memCrypto (memWorld []) =
     (Inl ErrNotFound, memWorld [])"
proof -
  have g: "GetCurrent memMetaStore ''gun'' CanonicalTimestampRole (memWorld []) =
      (Inl ErrNotFound, memWorld [])"
    by (simp add: memMetaStore_def memWorld_def)
  show ?thesis
    using GetOrCreateTimestamp_not_found [of memMetaStore "''gun''" "memWorld []" testTuf memCrypto,
        THEN conjunct1, rule_format, of ErrNotFound "memWorld []"] g by simp
qed

text \<open>
  A store with a root and a snapshot and no timestamp: the first read of the timestamp
  fails with \<^verbatim>\<open>ErrNotFound\<close> and stores nothing.
\<close>

theorem GetOrCreateTimestamp_not_lazy_counterexample:
  "GetCurrent memMetaStore ''gun'' CanonicalRootRole
       (memWorld [(''root'', ''root1''), (''snapshot'', ''snap1'')]) =
     (Inr (900, ''root1''), memWorld [(''root'', ''root1''), (''snapshot'', ''snap1'')]) \<and>
   GetOrCreateSnapshot testTuf ''gun'' memMetaStore memCrypto
       (memWorld [(''root'', ''root1''), (''snapshot'', ''snap1'')]) =
     (Inr (900, ''snap1''), memWorld [(''root'', ''root1''), (''snapshot'', ''snap1'')]) \<and>
   GetOrCreateTimestamp testTuf ''gun'' memMetaStore memCrypto
       (memWorld [(''root'', ''root1''), (''snapshot'', ''snap1'')]) =
     (Inl ErrNotFound, memWorld [(''root'', ''root1''), (''snapshot'', ''snap1'')])"
  by (simp add: tsDefs tsFixtures)




text \<open>
  C10. If the first \<^verbatim>\<open>GetKey\<close> fails with an error other than \<^verbatim>\<open>ErrNoKey\<close>, that error is
  returned in the state that \<^verbatim>\<open>GetKey\<close> left, and the same holds whatever \<^verbatim>\<open>Create\<close>
  and \<^verbatim>\<open>SetKey\<close> are: neither is called.
\<close>

theorem GetOrCreateTimestampKey_other_error:
  assumes "GetKey store gun CanonicalTimestampRole w = (Inl err, w1)" and "err \<noteq> ErrNoKey"
  shows "GetOrCreateTimestampKey gun store crypto createAlgorithm w = (Inl err, w1) \<and>
    (\<forall>create setKey.
       GetOrCreateTimestampKey gun (store\<lparr>SetKey := setKey\<rparr>) (crypto\<lparr>Create := create\<rparr>)
         createAlgorithm w = (Inl err, w1))"
  using assms by (simp add: GetOrCreateTimestampKey_def)

text \<open>A store that cannot be reached.\<close>

theorem GetOrCreateTimestampKey_other_error_witness:
  "GetOrCreateTimestampKey ''gun'' unreachableStore memCrypto ''ed25519'' (memWorld []) =
     (Inl (ErrOther ''connection refused''), memWorld []) \<and>
   GetOrCreateTimestampKey ''gun''
       (unreachableStore\<lparr>SetKey := (\<lambda>gun role algorithm public w. (None, w\<lparr>memKeys := []\<rparr>))\<rparr>)
       (memCrypto\<lparr>Create := (\<lambda>role gun algorithm w. (Inl (ErrOther ''no entropy''), w))\<rparr>)
       ''ed25519'' (memWorld []) =
     (Inl (ErrOther ''connection refused''), memWorld [])"
proof -
  have g: "GetKey unreachableStore ''gun'' CanonicalTimestampRole (memWorld []) =
      (Inl (ErrOther ''connection refused''), memWorld [])"
    by (simp add: unreachableStore_def)
  have n: "ErrOther ''connection refused'' \<noteq> ErrNoKey" by simp
  note t = GetOrCreateTimestampKey_other_error [OF g n, of memCrypto "''ed25519''"]
  show ?thesis
    using t [THEN conjunct1]
      t [THEN conjunct2, rule_format,
         of "\<lambda>gun role algorithm public w. (None, w\<lparr>memKeys := []\<rparr>)"
            "\<lambda>role gun algorithm w. (Inl (ErrOther ''no entropy''), w)"]
    by simp
qed

end
